theory Spec2Isabelle
  imports Complex_Main "HOL-Library.Product_Lexorder"
begin

section \<open>Request values\<close>

text \<open>
  A key of \<^verbatim>\<open>req.body\<close> as the handlers of the server see it: \<open>Absent\<close> is
  \<^verbatim>\<open>undefined\<close> (the key is missing), \<open>Null\<close> is JSON \<^verbatim>\<open>null\<close> (what
  \<^verbatim>\<open>JSON.stringify\<close> makes of the \<^verbatim>\<open>NaN\<close> that the pages in \<^verbatim>\<open>public/\<close> get
  from \<^verbatim>\<open>parseFloat\<close> of an empty entry), \<open>Val\<close> carries a value. Messages are
  written without their accents and inner quotation marks.
\<close>

datatype 'a field = Absent | Null | Val 'a

text \<open>
  The value of a numeric key. \<open>Num r\<close> is a JSON number, \<open>r\<close> being the double that
  the parser of the body read. \<open>NonNumeric\<close> is a text with no numeric reading: a string
  that is not empty and that neither \<^verbatim>\<open>Number\<close> reads as a number nor
  \<^verbatim>\<open>parseFloat\<close> by a prefix, such as \<^verbatim>\<open>"abc"\<close>. \<open>Boolean b\<close> is JSON
  \<^verbatim>\<open>true\<close> or \<^verbatim>\<open>false\<close>, \<open>BlankString\<close> a string of spaces only such as
  \<^verbatim>\<open>" "\<close>, and \<open>EmptyArray\<close> is \<^verbatim>\<open>[]\<close>: \<^verbatim>\<open>Number\<close> reads these as 1 or 0,
  while \<^verbatim>\<open>parseFloat\<close> reads none of them. Strings that spell a number, such as
  \<^verbatim>\<open>"50"\<close>, and the infinities are not among the values of the model.
\<close>

datatype jsamount = Num rat | NonNumeric | Boolean bool | BlankString | EmptyArray

text \<open>A JavaScript number that may be \<^verbatim>\<open>NaN\<close> (\<open>None\<close>).\<close>

type_synonym jsnum = "rat option"

definition truthy_num :: "jsamount field \<Rightarrow> bool" where
  "truthy_num v =
     (case v of Val (Num r) \<Rightarrow> r \<noteq> 0 | Val NonNumeric \<Rightarrow> True | Val (Boolean b) \<Rightarrow> b
      | Val BlankString \<Rightarrow> True | Val EmptyArray \<Rightarrow> True | _ \<Rightarrow> False)"

definition truthy_str :: "string field \<Rightarrow> bool" where
  "truthy_str v = (case v of Val s \<Rightarrow> s \<noteq> [] | _ \<Rightarrow> False)"

definition toNumber :: "jsamount field \<Rightarrow> jsnum" where
  "toNumber v =
     (case v of Absent \<Rightarrow> None | Null \<Rightarrow> Some 0 | Val (Num r) \<Rightarrow> Some r | Val NonNumeric \<Rightarrow> None
      | Val (Boolean b) \<Rightarrow> Some (if b then 1 else 0) | Val BlankString \<Rightarrow> Some 0
      | Val EmptyArray \<Rightarrow> Some 0)"

definition isNaN :: "jsamount field \<Rightarrow> bool" where
  "isNaN v = (toNumber v = None)"

definition parseFloat :: "jsamount field \<Rightarrow> jsnum" where
  "parseFloat v = (case v of Val (Num r) \<Rightarrow> Some r | _ \<Rightarrow> None)"

text \<open>Comparisons of numbers: every comparison with \<^verbatim>\<open>NaN\<close> is false.\<close>

definition js_lt :: "jsnum \<Rightarrow> jsnum \<Rightarrow> bool" where
  "js_lt a b = (case (a, b) of (Some x, Some y) \<Rightarrow> x < y | _ \<Rightarrow> False)"

definition js_le :: "jsnum \<Rightarrow> jsnum \<Rightarrow> bool" where
  "js_le a b = (case (a, b) of (Some x, Some y) \<Rightarrow> x \<le> y | _ \<Rightarrow> False)"

definition js_ge :: "jsnum \<Rightarrow> jsnum \<Rightarrow> bool" where
  "js_ge a b = (case (a, b) of (Some x, Some y) \<Rightarrow> x \<ge> y | _ \<Rightarrow> False)"

text \<open>
  A calendar date in local time: year, month index (0 to 11, as \<^verbatim>\<open>getMonth\<close> counts)
  and day of the month; the order is lexicographic. The time of day and time zones are
  not modelled. A date key of the body is \<open>Val d\<close> for a non-empty string, \<open>d\<close> being
  what \<^verbatim>\<open>new Date\<close> reads from it; an empty string is falsy and is written \<open>Null\<close>.
\<close>

type_synonym date = "int \<times> int \<times> int"

datatype jsdate = InvalidDate | ValidDate date

definition getFullYear :: "date \<Rightarrow> int" where
  "getFullYear d = fst d"

definition getMonth :: "date \<Rightarrow> int" where
  "getMonth d = fst (snd d)"

definition truthy_date :: "jsdate field \<Rightarrow> bool" where
  "truthy_date v = (case v of Val d \<Rightarrow> True | _ \<Rightarrow> False)"

definition isDateInPast :: "date \<Rightarrow> date \<Rightarrow> bool" where
  "isDateInPast today d = (d < today)"

text \<open>\<^verbatim>\<open>value || null\<close> on an optional text key.\<close>

definition or_null :: "string field \<Rightarrow> string option" where
  "or_null v = (case v of Val s \<Rightarrow> (if s = [] then None else Some s) | _ \<Rightarrow> None)"

subsection \<open>Numbers\<close>

text \<open>
  The numbers of JavaScript are IEEE 754 doubles. A finite double is written as the
  rational it stands for, and \<open>fl x\<close> is the double nearest to \<open>x\<close>, ties going to the
  even significand: the result of an arithmetic operation is \<open>fl\<close> of the exact result.
  \<open>bits k\<close> is the length of \<open>k\<close> in binary, \<open>ilog2 x\<close> the exponent of the power of two
  at or below a positive \<open>x\<close>, and a double with that exponent is a multiple of
  \<open>pow2 (ilog2 x - 52)\<close>, or of \<open>pow2 (- 1074)\<close> in the subnormal range. The overflow of
  a result beyond the largest double to \<^verbatim>\<open>Infinity\<close> is not modelled.
\<close>

function bits :: "int \<Rightarrow> int" where
  "bits k = (if k \<le> 0 then 0 else 1 + bits (k div 2))"
  by pat_completeness auto
termination
  by (relation "measure nat") auto

declare bits.simps [simp del]

definition pow2 :: "int \<Rightarrow> rat" where
  "pow2 e = (if 0 \<le> e then 2 ^ nat e else 1 / 2 ^ nat (- e))"

definition round_even :: "rat \<Rightarrow> int" where
  "round_even x =
     (let n = \<lfloor>x\<rfloor>; f = x - of_int n
      in if f < 1 / 2 then n else if 1 / 2 < f then n + 1 else if even n then n else n + 1)"

definition ilog2 :: "rat \<Rightarrow> int" where
  "ilog2 x = (if 1 \<le> x then bits \<lfloor>x\<rfloor> - 1 else - bits (\<lceil>1 / x\<rceil> - 1))"

definition fl :: "rat \<Rightarrow> rat" where
  "fl x =
     (if x = 0 then 0
      else (let e = max (ilog2 \<bar>x\<bar> - 52) (- 1074)
            in sgn x * of_int (round_even (\<bar>x\<bar> / pow2 e)) * pow2 e))"

text \<open>
  \<^verbatim>\<open>validateIntegerId\<close>: the text must be one or more ASCII digits; \<open>None\<close> is
  \<^verbatim>\<open>null\<close>. \<^verbatim>\<open>parseInt\<close> gives the double nearest to the number that the digits
  spell, which is that number up to 2^53 and a whole number near it beyond. (A text of
  more than 308 digits reads as \<^verbatim>\<open>Infinity\<close>, where the model has a finite number;
  both are outside the range of an id.)
\<close>

definition digit_val :: "char \<Rightarrow> nat" where
  "digit_val c = of_char c - 48"

definition parseInt :: "string \<Rightarrow> nat" where
  "parseInt v = nat \<lfloor>fl (of_nat (foldl (\<lambda>n c. 10 * n + digit_val c) 0 v))\<rfloor>"

definition validateIntegerId :: "string \<Rightarrow> nat option" where
  "validateIntegerId v =
     (if v \<noteq> [] \<and> list_all (\<lambda>c. c \<in> set ''0123456789'') v
      then Some (parseInt v)
      else None)"

section \<open>The tables\<close>

record transaction =
  id' :: nat
  userId :: nat
  type' :: string
  category :: string
  description :: string
  amount :: rat
  date :: date

record goal =
  id' :: nat
  userId :: nat
  name :: string
  targetAmount :: rat
  currentAmount :: rat
  deadline :: date
  category :: "string option"
  description :: "string option"
  status :: string
  createdAt :: nat

record store =
  transactions :: "transaction list"
  goals :: "goal list"
  nextTransactionId :: nat
  nextGoalId :: nat

definition empty_store :: store where
  "empty_store = \<lparr>transactions = [], goals = [], nextTransactionId = 1, nextGoalId = 1\<rparr>"

text \<open>An error response: \<^verbatim>\<open>res.status(n).json({ error: text })\<close>.\<close>

datatype error = Error nat string

type_synonym 'a result = "(error + 'a) \<times> store"

text \<open>
  The id columns are 64-bit integers. The ORM refuses an id beyond their range by
  raising, before the table is read: the \<^verbatim>\<open>catch\<close> of the handler then answers
  500 with its own text. Each handler below tests the range where it calls the ORM
  with the id for the first time, and a lookup outside the range finds nothing.
\<close>

definition id_in_range :: "nat \<Rightarrow> bool" where
  "id_in_range i = (i < 2 ^ 63)"

section \<open>Goals\<close>

text \<open>
  Every handler below is registered behind \<^verbatim>\<open>isAuthenticated\<close>: it runs for a
  session with a user id, the \<open>uid\<close> of the model, and returns its response together
  with the tables after it. The clock is an argument: \<open>today\<close> is the local date of
  \<^verbatim>\<open>new Date()\<close>, and \<open>now\<close> is the time stamp the database gives a new row.
  The columns \<^verbatim>\<open>updatedAt\<close>, which no handler reads, are left out.
\<close>

text \<open>
  \<^verbatim>\<open>Math.round\<close> gives the whole number nearest to a double, a half going up; the
  progress of a goal is computed from the stored amounts in doubles, the quotient
  rounded first and then its product with 100.
\<close>

definition Math_round :: "rat \<Rightarrow> int" where
  "Math_round x = \<lfloor>x + 1 / 2\<rfloor>"

definition progress :: "goal \<Rightarrow> int" where
  "progress g =
     (if goal.targetAmount g > 0
      then min (Math_round (fl (fl (goal.currentAmount g / goal.targetAmount g) * 100))) 100
      else 0)"

definition with_progress :: "goal \<Rightarrow> goal \<times> int" where
  "with_progress g = (g, progress g)"

definition findUnique_goal :: "store \<Rightarrow> nat \<Rightarrow> goal option" where
  "findUnique_goal s i = (if id_in_range i then find (\<lambda>g. goal.id' g = i) (goals s) else None)"

record goal_body =
  name :: "string field"
  targetAmount :: "jsamount field"
  currentAmount :: "jsamount field"
  deadline :: "jsdate field"
  category :: "string field"
  description :: "string field"
  status :: "string field"

text \<open>
  \<^verbatim>\<open>updateData\<close>: a key that is not set is \<open>None\<close>. The ORM writes the keys that
  are set into the row with the given id. A \<^verbatim>\<open>NaN\<close> amount cannot be written to
  the \<^verbatim>\<open>REAL NOT NULL\<close> columns: the write is modelled as raising, and the
  handler's \<^verbatim>\<open>catch\<close> answers 500.
\<close>

record goal_data =
  name :: "string option"
  targetAmount :: "jsnum option"
  currentAmount :: "jsnum option"
  deadline :: "date option"
  category :: "string option option"
  description :: "string option option"
  status :: "string option"

definition or_keep :: "'a option \<Rightarrow> 'a \<Rightarrow> 'a" where
  "or_keep v old = (case v of None \<Rightarrow> old | Some x \<Rightarrow> x)"

definition apply_goal_data :: "goal_data \<Rightarrow> goal \<Rightarrow> goal option" where
  "apply_goal_data d g =
     (if goal_data.targetAmount d = Some None \<or> goal_data.currentAmount d = Some None
      then None
      else Some (g\<lparr>goal.name := or_keep (goal_data.name d) (goal.name g),
        goal.targetAmount := or_keep (Option.bind (goal_data.targetAmount d) id) (goal.targetAmount g),
        goal.currentAmount := or_keep (Option.bind (goal_data.currentAmount d) id) (goal.currentAmount g),
        goal.deadline := or_keep (goal_data.deadline d) (goal.deadline g),
        goal.category := or_keep (goal_data.category d) (goal.category g),
        goal.description := or_keep (goal_data.description d) (goal.description g),
        goal.status := or_keep (goal_data.status d) (goal.status g)\<rparr>))"

definition replace_goal :: "goal \<Rightarrow> store \<Rightarrow> store" where
  "replace_goal g' s =
     s\<lparr>goals := map (\<lambda>g. if goal.id' g = goal.id' g' then g' else g) (goals s)\<rparr>"

definition valid_status :: "string \<Rightarrow> bool" where
  "valid_status st = (st \<in> set [''active'', ''completed'', ''cancelled''])"

text \<open>
  \<^verbatim>\<open>POST /api/goals\<close>, for the user \<open>uid\<close> of the session, in three parts: the
  checks of the body in the handler's order (\<open>None\<close> when all pass), the row that is
  handed to the ORM, and the handler itself.
\<close>

definition goal_create_errors :: "date \<Rightarrow> goal_body \<Rightarrow> error option" where
  "goal_create_errors today b =
     (if \<not> truthy_str (goal_body.name b) \<or> \<not> truthy_num (goal_body.targetAmount b)
         \<or> \<not> truthy_date (goal_body.deadline b)
      then Some (Error 400 ''Nome, valor alvo e prazo sao obrigatorios'')
      else if isNaN (goal_body.targetAmount b) \<or> js_le (toNumber (goal_body.targetAmount b)) (Some 0)
      then Some (Error 400 ''Valor alvo deve ser um numero positivo'')
      else if goal_body.currentAmount b \<noteq> Absent
          \<and> (isNaN (goal_body.currentAmount b) \<or> js_lt (toNumber (goal_body.currentAmount b)) (Some 0))
      then Some (Error 400 ''Valor atual deve ser um numero nao-negativo'')
      else (case goal_body.deadline b of
          Val (ValidDate parsedDeadline) \<Rightarrow>
            if isDateInPast today parsedDeadline
            then Some (Error 400 ''Prazo nao pode estar no passado'')
            else None
        | _ \<Rightarrow> Some (Error 400 ''Prazo invalido'')))"

definition new_goal :: "nat \<Rightarrow> nat \<Rightarrow> goal_body \<Rightarrow> store \<Rightarrow> goal option" where
  "new_goal now uid b s =
     (let finalCurrentAmount =
            (if truthy_num (goal_body.currentAmount b)
             then parseFloat (goal_body.currentAmount b) else Some 0);
          finalTargetAmount = parseFloat (goal_body.targetAmount b);
          initialStatus =
            (if js_ge finalCurrentAmount finalTargetAmount then ''completed'' else ''active'')
      in (case (finalTargetAmount, finalCurrentAmount, goal_body.deadline b) of
            (Some t, Some c, Val (ValidDate parsedDeadline)) \<Rightarrow>
              Some \<lparr>goal.id' = nextGoalId s, goal.userId = uid,
                    goal.name = (case goal_body.name b of Val n \<Rightarrow> n | _ \<Rightarrow> []),
                    goal.targetAmount = t, goal.currentAmount = c,
                    goal.deadline = parsedDeadline,
                    goal.category = or_null (goal_body.category b),
                    goal.description = or_null (goal_body.description b),
                    goal.status = initialStatus, goal.createdAt = now\<rparr>
          | _ \<Rightarrow> None))"

definition create_goal :: "nat \<Rightarrow> date \<Rightarrow> nat \<Rightarrow> goal_body \<Rightarrow> store \<Rightarrow> (string \<times> goal) result" where
  "create_goal now today uid b s =
     (case goal_create_errors today b of
        Some e \<Rightarrow> (Inl e, s)
      | None \<Rightarrow>
         (case new_goal now uid b s of
            None \<Rightarrow> (Inl (Error 500 ''Erro ao criar meta''), s)
          | Some g \<Rightarrow>
              (Inr (''Meta criada com sucesso!'', g),
               s\<lparr>goals := goals s @ [g], nextGoalId := Suc (nextGoalId s)\<rparr>)))"

text \<open>
  \<^verbatim>\<open>PUT /api/goals/:id\<close>, in three parts: the checks of the keys of the body in the
  handler's order (\<open>None\<close> when all pass), the construction of \<^verbatim>\<open>updateData\<close> with the
  status rule, and the handler itself.
\<close>

definition goal_update_errors :: "date \<Rightarrow> goal_body \<Rightarrow> error option" where
  "goal_update_errors today b =
     (if truthy_num (goal_body.targetAmount b)
         \<and> (isNaN (goal_body.targetAmount b) \<or> js_le (toNumber (goal_body.targetAmount b)) (Some 0))
      then Some (Error 400 ''Valor alvo deve ser um numero positivo'')
      else if goal_body.currentAmount b \<noteq> Absent
         \<and> (isNaN (goal_body.currentAmount b) \<or> js_lt (toNumber (goal_body.currentAmount b)) (Some 0))
      then Some (Error 400 ''Valor atual deve ser um numero nao-negativo'')
      else if goal_body.deadline b = Val InvalidDate
      then Some (Error 400 ''Prazo invalido'')
      else if (case goal_body.deadline b of Val (ValidDate d) \<Rightarrow> isDateInPast today d | _ \<Rightarrow> False)
      then Some (Error 400 ''Prazo nao pode estar no passado'')
      else if truthy_str (goal_body.status b)
         \<and> \<not> (case goal_body.status b of Val st \<Rightarrow> valid_status st | _ \<Rightarrow> False)
      then Some (Error 400 ''Status deve ser active, completed ou cancelled'')
      else None)"

definition finalTargetAmount :: "goal \<Rightarrow> goal_body \<Rightarrow> jsnum" where
  "finalTargetAmount existingGoal b =
     (if truthy_num (goal_body.targetAmount b)
      then parseFloat (goal_body.targetAmount b)
      else Some (goal.targetAmount existingGoal))"

definition finalCurrentAmount :: "goal \<Rightarrow> goal_body \<Rightarrow> jsnum" where
  "finalCurrentAmount existingGoal b =
     (if goal_body.currentAmount b \<noteq> Absent
      then parseFloat (goal_body.currentAmount b)
      else Some (goal.currentAmount existingGoal))"

definition updateData_status :: "goal \<Rightarrow> goal_body \<Rightarrow> string option" where
  "updateData_status existingGoal b =
     (if \<not> truthy_str (goal_body.status b)
      then (if js_ge (finalCurrentAmount existingGoal b) (finalTargetAmount existingGoal b)
            then Some ''completed''
            else if goal.status existingGoal = ''completed''
                \<and> js_lt (finalCurrentAmount existingGoal b) (finalTargetAmount existingGoal b)
            then Some ''active'' else None)
      else (case goal_body.status b of Val st \<Rightarrow> Some st | _ \<Rightarrow> None))"

definition goal_updateData :: "goal \<Rightarrow> goal_body \<Rightarrow> goal_data" where
  "goal_updateData existingGoal b = \<lparr>
     goal_data.name =
       (case goal_body.name b of Val n \<Rightarrow> (if n = [] then None else Some n) | _ \<Rightarrow> None),
     goal_data.targetAmount =
       (if truthy_num (goal_body.targetAmount b)
        then Some (parseFloat (goal_body.targetAmount b)) else None),
     goal_data.currentAmount =
       (if goal_body.currentAmount b \<noteq> Absent
        then Some (parseFloat (goal_body.currentAmount b)) else None),
     goal_data.deadline =
       (case goal_body.deadline b of Val (ValidDate d) \<Rightarrow> Some d | _ \<Rightarrow> None),
     goal_data.category =
       (if goal_body.category b \<noteq> Absent then Some (or_null (goal_body.category b)) else None),
     goal_data.description =
       (if goal_body.description b \<noteq> Absent then Some (or_null (goal_body.description b)) else None),
     goal_data.status = updateData_status existingGoal b\<rparr>"

definition update_goal :: "date \<Rightarrow> nat \<Rightarrow> string \<Rightarrow> goal_body \<Rightarrow> store \<Rightarrow> (string \<times> goal \<times> int) result" where
  "update_goal today uid i b s =
     (case validateIntegerId i of
        None \<Rightarrow> (Inl (Error 400 ''ID invalido''), s)
      | Some goalId \<Rightarrow>
         if \<not> id_in_range goalId
         then (Inl (Error 500 ''Erro ao atualizar meta''), s)
         else
         (case findUnique_goal s goalId of
            None \<Rightarrow> (Inl (Error 404 ''Meta nao encontrada''), s)
          | Some existingGoal \<Rightarrow>
             if goal.userId existingGoal \<noteq> uid
             then (Inl (Error 404 ''Meta nao encontrada''), s)
             else (case goal_update_errors today b of
                Some e \<Rightarrow> (Inl e, s)
              | None \<Rightarrow>
                 (case apply_goal_data (goal_updateData existingGoal b) existingGoal of
                    None \<Rightarrow> (Inl (Error 500 ''Erro ao atualizar meta''), s)
                  | Some g \<Rightarrow>
                      (Inr (''Meta atualizada com sucesso!'', g, progress g), replace_goal g s)))))"

text \<open>\<^verbatim>\<open>PUT /api/goals/:id/amount\<close>: the amount is checked before the goal is loaded.\<close>

definition update_progress :: "nat \<Rightarrow> string \<Rightarrow> jsamount field \<Rightarrow> store \<Rightarrow> (string \<times> goal \<times> int) result" where
  "update_progress uid i amount' s =
     (case validateIntegerId i of
        None \<Rightarrow> (Inl (Error 400 ''ID invalido''), s)
      | Some goalId \<Rightarrow>
         if \<not> truthy_num amount' \<or> isNaN amount' \<or> js_lt (toNumber amount') (Some 0)
         then (Inl (Error 400 ''Valor deve ser um numero nao-negativo''), s)
         else if \<not> id_in_range goalId
         then (Inl (Error 500 ''Erro ao atualizar progresso''), s)
         else
          (case findUnique_goal s goalId of
             None \<Rightarrow> (Inl (Error 404 ''Meta nao encontrada''), s)
           | Some existingGoal \<Rightarrow>
              if goal.userId existingGoal \<noteq> uid
              then (Inl (Error 404 ''Meta nao encontrada''), s)
              else
                (let newCurrentAmount = parseFloat amount';
                     newStatus =
                       (if js_ge newCurrentAmount (Some (goal.targetAmount existingGoal))
                        then ''completed'' else goal.status existingGoal);
                     updateData = \<lparr>
                       goal_data.name = None, goal_data.targetAmount = None,
                       goal_data.currentAmount = Some newCurrentAmount,
                       goal_data.deadline = None, goal_data.category = None,
                       goal_data.description = None, goal_data.status = Some newStatus\<rparr>
                 in (case apply_goal_data updateData existingGoal of
                       None \<Rightarrow> (Inl (Error 500 ''Erro ao atualizar progresso''), s)
                     | Some g \<Rightarrow>
                         (Inr (if newStatus = ''completed'' then ''Parabens! Meta concluida!''
                               else ''Progresso atualizado com sucesso!'', g, progress g),
                          replace_goal g s)))))"

text \<open>\<^verbatim>\<open>GET /api/goals\<close>; the query's \<^verbatim>\<open>status\<close> is a string or missing.\<close>

definition list_goals :: "nat \<Rightarrow> string option \<Rightarrow> store \<Rightarrow> (goal \<times> int) list result" where
  "list_goals uid status' s =
     (let filters = (\<lambda>g. goal.userId g = uid
            \<and> (case status' of
                 Some st \<Rightarrow> (if st \<noteq> [] \<and> valid_status st then goal.status g = st else True)
               | None \<Rightarrow> True));
          goals' = sort_key goal.deadline (filter filters (goals s))
      in (Inr (map with_progress goals'), s))"

text \<open>\<^verbatim>\<open>GET /api/goals/:id\<close>.\<close>

definition get_goal :: "nat \<Rightarrow> string \<Rightarrow> store \<Rightarrow> (goal \<times> int) result" where
  "get_goal uid i s =
     (case validateIntegerId i of
        None \<Rightarrow> (Inl (Error 400 ''ID invalido''), s)
      | Some goalId \<Rightarrow>
         if \<not> id_in_range goalId
         then (Inl (Error 500 ''Erro ao buscar meta''), s)
         else
         (case findUnique_goal s goalId of
            None \<Rightarrow> (Inl (Error 404 ''Meta nao encontrada''), s)
          | Some g \<Rightarrow>
             if goal.userId g \<noteq> uid
             then (Inl (Error 404 ''Meta nao encontrada''), s)
             else (Inr (g, progress g), s)))"

text \<open>\<^verbatim>\<open>GET /api/goals/latest/recent\<close>: the two goals created last.\<close>

definition recent_goals :: "nat \<Rightarrow> store \<Rightarrow> (goal \<times> int) list result" where
  "recent_goals uid s =
     (let goals' = take 2 (rev (sort_key goal.createdAt (filter (\<lambda>g. goal.userId g = uid) (goals s))))
      in (Inr (map with_progress goals'), s))"

text \<open>\<^verbatim>\<open>DELETE /api/goals/:id\<close>.\<close>

definition delete_goal :: "nat \<Rightarrow> string \<Rightarrow> store \<Rightarrow> string result" where
  "delete_goal uid i s =
     (case validateIntegerId i of
        None \<Rightarrow> (Inl (Error 400 ''ID invalido''), s)
      | Some goalId \<Rightarrow>
         if \<not> id_in_range goalId
         then (Inl (Error 500 ''Erro ao deletar meta''), s)
         else
         (case findUnique_goal s goalId of
            None \<Rightarrow> (Inl (Error 404 ''Meta nao encontrada''), s)
          | Some g \<Rightarrow>
             if goal.userId g \<noteq> uid
             then (Inl (Error 404 ''Meta nao encontrada''), s)
             else (Inr ''Meta deletada com sucesso!'',
                   s\<lparr>goals := filter (\<lambda>g. goal.id' g \<noteq> goalId) (goals s)\<rparr>)))"

section \<open>Transactions\<close>

definition findUnique_transaction :: "store \<Rightarrow> nat \<Rightarrow> transaction option" where
  "findUnique_transaction s i =
     (if id_in_range i then find (\<lambda>t. transaction.id' t = i) (transactions s) else None)"

record transaction_body =
  type' :: "string field"
  category :: "string field"
  description :: "string field"
  amount :: "jsamount field"
  date :: "jsdate field"

record transaction_data =
  type' :: "string option"
  category :: "string option"
  description :: "string option"
  amount :: "jsnum option"
  date :: "date option"

definition apply_transaction_data :: "transaction_data \<Rightarrow> transaction \<Rightarrow> transaction option" where
  "apply_transaction_data d t =
     (if transaction_data.amount d = Some None
      then None
      else Some (t\<lparr>transaction.type' := or_keep (transaction_data.type' d) (transaction.type' t),
        transaction.category := or_keep (transaction_data.category d) (transaction.category t),
        transaction.description := or_keep (transaction_data.description d) (transaction.description t),
        transaction.amount := or_keep (Option.bind (transaction_data.amount d) id) (transaction.amount t),
        transaction.date := or_keep (transaction_data.date d) (transaction.date t)\<rparr>))"

definition replace_transaction :: "transaction \<Rightarrow> store \<Rightarrow> store" where
  "replace_transaction t' s =
     s\<lparr>transactions :=
         map (\<lambda>t. if transaction.id' t = transaction.id' t' then t' else t) (transactions s)\<rparr>"

definition text_of :: "string field \<Rightarrow> string" where
  "text_of v = (case v of Val x \<Rightarrow> x | _ \<Rightarrow> [])"

definition truthy_text :: "string field \<Rightarrow> string option" where
  "truthy_text v = (case v of Val x \<Rightarrow> (if x = [] then None else Some x) | _ \<Rightarrow> None)"

text \<open>\<^verbatim>\<open>POST /api/transactions\<close>, in the same three parts.\<close>

definition transaction_create_errors :: "transaction_body \<Rightarrow> error option" where
  "transaction_create_errors b =
     (if \<not> truthy_str (transaction_body.type' b) \<or> \<not> truthy_str (transaction_body.category b)
         \<or> \<not> truthy_str (transaction_body.description b) \<or> \<not> truthy_num (transaction_body.amount b)
         \<or> \<not> truthy_date (transaction_body.date b)
      then Some (Error 400 ''Todos os campos sao obrigatorios'')
      else if text_of (transaction_body.type' b) \<noteq> ''expense''
          \<and> text_of (transaction_body.type' b) \<noteq> ''income''
      then Some (Error 400 ''Tipo deve ser expense ou income'')
      else if isNaN (transaction_body.amount b) \<or> js_le (toNumber (transaction_body.amount b)) (Some 0)
      then Some (Error 400 ''Valor deve ser um numero positivo'')
      else if transaction_body.date b = Val InvalidDate
      then Some (Error 400 ''Data invalida'')
      else None)"

definition new_transaction :: "nat \<Rightarrow> transaction_body \<Rightarrow> store \<Rightarrow> transaction option" where
  "new_transaction uid b s =
     (case (parseFloat (transaction_body.amount b), transaction_body.date b) of
        (Some a, Val (ValidDate parsedDate)) \<Rightarrow>
          Some \<lparr>transaction.id' = nextTransactionId s, transaction.userId = uid,
                transaction.type' = text_of (transaction_body.type' b),
                transaction.category = text_of (transaction_body.category b),
                transaction.description = text_of (transaction_body.description b),
                transaction.amount = a, transaction.date = parsedDate\<rparr>
      | _ \<Rightarrow> None)"

definition create_transaction :: "nat \<Rightarrow> transaction_body \<Rightarrow> store \<Rightarrow> (string \<times> transaction) result" where
  "create_transaction uid b s =
     (case transaction_create_errors b of
        Some e \<Rightarrow> (Inl e, s)
      | None \<Rightarrow>
         (case new_transaction uid b s of
            None \<Rightarrow> (Inl (Error 500 ''Erro ao criar transacao''), s)
          | Some t \<Rightarrow>
              (Inr (''Transacao criada com sucesso!'', t),
               s\<lparr>transactions := transactions s @ [t],
                 nextTransactionId := Suc (nextTransactionId s)\<rparr>)))"


text \<open>
  \<^verbatim>\<open>PUT /api/transactions/:id\<close>, in three parts as for goals: the checks of the
  keys, the construction of \<^verbatim>\<open>updateData\<close>, and the handler.
\<close>

definition transaction_update_errors :: "transaction_body \<Rightarrow> error option" where
  "transaction_update_errors b =
     (if truthy_str (transaction_body.type' b)
         \<and> text_of (transaction_body.type' b) \<noteq> ''expense''
         \<and> text_of (transaction_body.type' b) \<noteq> ''income''
      then Some (Error 400 ''Tipo deve ser expense ou income'')
      else if truthy_num (transaction_body.amount b)
         \<and> (isNaN (transaction_body.amount b) \<or> js_le (toNumber (transaction_body.amount b)) (Some 0))
      then Some (Error 400 ''Valor deve ser um numero positivo'')
      else if transaction_body.date b = Val InvalidDate
      then Some (Error 400 ''Data invalida'')
      else None)"

definition transaction_updateData :: "transaction_body \<Rightarrow> transaction_data" where
  "transaction_updateData b = \<lparr>
     transaction_data.type' = truthy_text (transaction_body.type' b),
     transaction_data.category = truthy_text (transaction_body.category b),
     transaction_data.description = truthy_text (transaction_body.description b),
     transaction_data.amount =
       (if truthy_num (transaction_body.amount b)
        then Some (parseFloat (transaction_body.amount b)) else None),
     transaction_data.date =
       (case transaction_body.date b of Val (ValidDate d) \<Rightarrow> Some d | _ \<Rightarrow> None)\<rparr>"

definition update_transaction :: "nat \<Rightarrow> string \<Rightarrow> transaction_body \<Rightarrow> store \<Rightarrow> (string \<times> transaction) result" where
  "update_transaction uid i b s =
     (case validateIntegerId i of
        None \<Rightarrow> (Inl (Error 400 ''ID invalido''), s)
      | Some transactionId \<Rightarrow>
         if \<not> id_in_range transactionId
         then (Inl (Error 500 ''Erro ao atualizar transacao''), s)
         else
         (case findUnique_transaction s transactionId of
            None \<Rightarrow> (Inl (Error 404 ''Transacao nao encontrada''), s)
          | Some existingTransaction \<Rightarrow>
             if transaction.userId existingTransaction \<noteq> uid
             then (Inl (Error 404 ''Transacao nao encontrada''), s)
             else (case transaction_update_errors b of
                Some e \<Rightarrow> (Inl e, s)
              | None \<Rightarrow>
                 (case apply_transaction_data (transaction_updateData b) existingTransaction of
                    None \<Rightarrow> (Inl (Error 500 ''Erro ao atualizar transacao''), s)
                  | Some t \<Rightarrow>
                      (Inr (''Transacao atualizada com sucesso!'', t), replace_transaction t s)))))"

text \<open>\<^verbatim>\<open>DELETE /api/transactions/:id\<close>.\<close>

definition delete_transaction :: "nat \<Rightarrow> string \<Rightarrow> store \<Rightarrow> string result" where
  "delete_transaction uid i s =
     (case validateIntegerId i of
        None \<Rightarrow> (Inl (Error 400 ''ID invalido''), s)
      | Some transactionId \<Rightarrow>
         if \<not> id_in_range transactionId
         then (Inl (Error 500 ''Erro ao deletar transacao''), s)
         else
         (case findUnique_transaction s transactionId of
            None \<Rightarrow> (Inl (Error 404 ''Transacao nao encontrada''), s)
          | Some t \<Rightarrow>
             if transaction.userId t \<noteq> uid
             then (Inl (Error 404 ''Transacao nao encontrada''), s)
             else (Inr ''Transacao deletada com sucesso!'',
                   s\<lparr>transactions :=
                       filter (\<lambda>t. transaction.id' t \<noteq> transactionId) (transactions s)\<rparr>)))"

text \<open>
  \<^verbatim>\<open>GET /api/transactions/summary/stats\<close>: the rows of the user in the order of
  the table, each \<^verbatim>\<open>reduce\<close> adding in doubles from 0.
\<close>

record stats =
  income :: rat
  expenses :: rat
  balance :: rat
  transactionCount :: nat

definition summary :: "nat \<Rightarrow> store \<Rightarrow> stats" where
  "summary uid s =
     (let transactions' = filter (\<lambda>t. transaction.userId t = uid) (transactions s);
          income' = foldl (\<lambda>sum t. fl (sum + transaction.amount t)) 0
                      (filter (\<lambda>t. transaction.type' t = ''income'') transactions');
          expenses' = foldl (\<lambda>sum t. fl (sum + transaction.amount t)) 0
                      (filter (\<lambda>t. transaction.type' t = ''expense'') transactions')
      in \<lparr>income = income', expenses = expenses', balance = fl (income' - expenses'),
           transactionCount = length transactions'\<rparr>)"

text \<open>
  \<^verbatim>\<open>GET /api/transactions/chart/monthly\<close>. \<^verbatim>\<open>new Date(year, month, 1)\<close> carries a
  month index outside 0 to 11 into the year, and reads a year from 0 to 99 as 1900 plus
  that year. The \<^verbatim>\<open>label\<close> of a bucket, the locale's short name of its month, is left
  out. The rows are read in the order of their dates, and \<^verbatim>\<open>+=\<close> adds in doubles.
\<close>

definition new_Date :: "int \<Rightarrow> int \<Rightarrow> int \<Rightarrow> date" where
  "new_Date y m d =
     (let yr = (if 0 \<le> y \<and> y \<le> 99 then 1900 + y else y)
      in (yr + m div 12, m mod 12, d))"

record bucket =
  month :: int
  year :: int
  income :: rat
  expenses :: rat

fun findIndex :: "('a \<Rightarrow> bool) \<Rightarrow> 'a list \<Rightarrow> nat option" where
  "findIndex P [] = None"
| "findIndex P (x # xs) = (if P x then Some 0 else map_option Suc (findIndex P xs))"

definition chart_months :: "date \<Rightarrow> bucket list" where
  "chart_months now =
     map (\<lambda>i. let date' = new_Date (getFullYear now) (getMonth now - i) 1
              in \<lparr>month = getMonth date', year = getFullYear date', income = 0, expenses = 0\<rparr>)
       [5, 4, 3, 2, 1, 0]"

definition add_to_month :: "bucket list \<Rightarrow> transaction \<Rightarrow> bucket list" where
  "add_to_month months t =
     (let transactionDate = transaction.date t
      in (case findIndex (\<lambda>m. month m = getMonth transactionDate
                             \<and> year m = getFullYear transactionDate) months of
            None \<Rightarrow> months
          | Some monthIndex \<Rightarrow>
              if transaction.type' t = ''income''
              then months[monthIndex := (months ! monthIndex)
                     \<lparr>bucket.income :=
                        fl (bucket.income (months ! monthIndex) + transaction.amount t)\<rparr>]
              else months[monthIndex := (months ! monthIndex)
                     \<lparr>bucket.expenses :=
                        fl (bucket.expenses (months ! monthIndex) + transaction.amount t)\<rparr>]))"

definition monthlyChart :: "date \<Rightarrow> nat \<Rightarrow> store \<Rightarrow> bucket list" where
  "monthlyChart now uid s =
     (let startDate = new_Date (getFullYear now) (getMonth now - 5) 1;
          transactions' = sort_key transaction.date
            (filter (\<lambda>t. transaction.userId t = uid \<and> transaction.date t \<ge> startDate) (transactions s))
      in foldl add_to_month (chart_months now) transactions')"

section \<open>Histories\<close>

text \<open>
  The requests that write to the tables, and the store after a list of them, from the
  empty tables.
\<close>

datatype request =
    CreateTransaction nat transaction_body
  | UpdateTransaction nat string transaction_body
  | DeleteTransaction nat string
  | CreateGoal nat date nat goal_body
  | UpdateGoal date nat string goal_body
  | UpdateProgress nat string "jsamount field"
  | DeleteGoal nat string

fun perform :: "store \<Rightarrow> request \<Rightarrow> store" where
  "perform s (CreateTransaction uid b) = snd (create_transaction uid b s)"
| "perform s (UpdateTransaction uid i b) = snd (update_transaction uid i b s)"
| "perform s (DeleteTransaction uid i) = snd (delete_transaction uid i s)"
| "perform s (CreateGoal now today uid b) = snd (create_goal now today uid b s)"
| "perform s (UpdateGoal today uid i b) = snd (update_goal today uid i b s)"
| "perform s (UpdateProgress uid i a) = snd (update_progress uid i a s)"
| "perform s (DeleteGoal uid i) = snd (delete_goal uid i s)"

definition run :: "request list \<Rightarrow> store" where
  "run rs = foldl perform empty_store rs"

section \<open>The specification's notions\<close>

text \<open>
  The progress of a goal in the specification's words: the rounded percentage, clamped
  between 0 and 100, and 0 for a target of 0.
\<close>

definition clamp :: "int \<Rightarrow> int \<Rightarrow> int \<Rightarrow> int" where
  "clamp x lo hi = max lo (min x hi)"

definition spec_progress :: "goal \<Rightarrow> int" where
  "spec_progress g =
     (if goal.targetAmount g = 0 then 0
      else clamp (round (goal.currentAmount g / goal.targetAmount g * 100)) 0 100)"

text \<open>
  The same percentage in the arithmetic of doubles: the quotient is rounded to a double,
  and so is its product with 100, before the result is rounded to a whole number.
\<close>

definition double_progress :: "goal \<Rightarrow> int" where
  "double_progress g =
     (if goal.targetAmount g = 0 then 0
      else clamp (round (fl (fl (goal.currentAmount g / goal.targetAmount g) * 100))) 0 100)"

text \<open>What the handlers keep true of every stored row.\<close>

definition goal_ok :: "goal \<Rightarrow> bool" where
  "goal_ok g = (0 < goal.targetAmount g \<and> 0 \<le> goal.currentAmount g)"

definition transaction_ok :: "transaction \<Rightarrow> bool" where
  "transaction_ok t =
     ((transaction.type' t = ''income'' \<or> transaction.type' t = ''expense'')
      \<and> 0 < transaction.amount t)"

text \<open>
  An amount that is a whole number, and a list of buckets whose sums are whole numbers:
  sums of such amounts are exact in doubles as long as they stay below 2^53.
\<close>

definition whole :: "rat \<Rightarrow> bool" where
  "whole r = (of_int \<lfloor>r\<rfloor> = r)"

definition whole_buckets :: "bucket list \<Rightarrow> bool" where
  "whole_buckets ms =
     list_all (\<lambda>m. 0 \<le> bucket.income m \<and> whole (bucket.income m)
                 \<and> 0 \<le> bucket.expenses m \<and> whole (bucket.expenses m)) ms"

definition bucket_total :: "bucket list \<Rightarrow> rat" where
  "bucket_total ms = sum_list (map bucket.income ms) + sum_list (map bucket.expenses ms)"

definition store_ok :: "store \<Rightarrow> bool" where
  "store_ok s = (list_all goal_ok (goals s) \<and> list_all transaction_ok (transactions s))"

text \<open>Whether a response is an error with the given HTTP status.\<close>

definition failed_with :: "nat \<Rightarrow> (error + 'a) \<Rightarrow> bool" where
  "failed_with c r = (case r of Inl (Error c' msg) \<Rightarrow> c' = c | Inr x \<Rightarrow> False)"

text \<open>
  Months counted from year 0, and the chart's window at a current date: the dates of
  the calendar from the first day of the fifth month before the current one to the end
  of the current month.
\<close>

definition month_number :: "int \<Rightarrow> int \<Rightarrow> int" where
  "month_number y m = 12 * y + m"

definition in_window :: "date \<Rightarrow> date \<Rightarrow> bool" where
  "in_window now d =
     (0 \<le> getMonth d \<and> getMonth d < 12 \<and> 1 \<le> snd (snd d)
      \<and> month_number (getFullYear now) (getMonth now) - 5 \<le> month_number (getFullYear d) (getMonth d)
      \<and> month_number (getFullYear d) (getMonth d) \<le> month_number (getFullYear now) (getMonth now))"

text \<open>The test of \<^verbatim>\<open>findIndex\<close> in the chart: the bucket of a transaction's month.\<close>

definition matches :: "transaction \<Rightarrow> bucket \<Rightarrow> bool" where
  "matches t m = (bucket.month m = getMonth (transaction.date t)
                   \<and> bucket.year m = getFullYear (transaction.date t))"

subsection \<open>A small history\<close>

definition example_goal_body :: goal_body where
  "example_goal_body = \<lparr>goal_body.name = Val ''Viagem'', goal_body.targetAmount = Val (Num 200),
     goal_body.currentAmount = Val (Num 50), goal_body.deadline = Val (ValidDate (2026, 11, 31)),
     goal_body.category = Absent, goal_body.description = Absent, goal_body.status = Absent\<rparr>"

definition example_transaction_body :: transaction_body where
  "example_transaction_body = \<lparr>transaction_body.type' = Val ''income'',
     transaction_body.category = Val ''Salario'', transaction_body.description = Val ''Novembro'',
     transaction_body.amount = Val (Num 100), transaction_body.date = Val (ValidDate (2026, 10, 1))\<rparr>"

definition example_requests :: "request list" where
  "example_requests =
     [CreateGoal 7 (2026, 10, 2) 1 example_goal_body, CreateTransaction 1 example_transaction_body]"

definition example_goal :: goal where
  "example_goal = \<lparr>goal.id' = 1, goal.userId = 1, goal.name = ''Viagem'',
      goal.targetAmount = 200, goal.currentAmount = 50, goal.deadline = (2026, 11, 31),
      goal.category = None, goal.description = None, goal.status = ''active'', goal.createdAt = 7\<rparr>"

definition example_transaction :: transaction where
  "example_transaction = \<lparr>transaction.id' = 1, transaction.userId = 1,
      transaction.type' = ''income'', transaction.category = ''Salario'',
      transaction.description = ''Novembro'', transaction.amount = 100,
      transaction.date = (2026, 10, 1)\<rparr>"

definition example_store :: store where
  "example_store = \<lparr>transactions = [example_transaction], goals = [example_goal],
      nextTransactionId = 2, nextGoalId = 2\<rparr>"

definition completed_goal :: goal where
  "completed_goal = example_goal\<lparr>goal.currentAmount := 200, goal.status := ''completed''\<rparr>"

definition completed_store :: store where
  "completed_store = example_store\<lparr>goals := [completed_goal]\<rparr>"

definition empty_goal_body :: goal_body where
  "empty_goal_body = \<lparr>goal_body.name = Absent, goal_body.targetAmount = Absent,
     goal_body.currentAmount = Absent, goal_body.deadline = Absent,
     goal_body.category = Absent, goal_body.description = Absent, goal_body.status = Absent\<rparr>"

definition zero_target_body :: goal_body where
  "zero_target_body = \<lparr>goal_body.name = Absent, goal_body.targetAmount = Val (Num 0),
     goal_body.currentAmount = Absent, goal_body.deadline = Absent,
     goal_body.category = Absent, goal_body.description = Absent, goal_body.status = Absent\<rparr>"

definition zero_amount_body :: transaction_body where
  "zero_amount_body = \<lparr>transaction_body.type' = Absent, transaction_body.category = Absent,
     transaction_body.description = Absent, transaction_body.amount = Val (Num 0),
     transaction_body.date = Absent\<rparr>"

definition rounding_goal_body :: goal_body where
  "rounding_goal_body = example_goal_body\<lparr>goal_body.currentAmount := Val (Num 29)\<rparr>"

definition rounding_goal :: goal where
  "rounding_goal = example_goal\<lparr>goal.currentAmount := 29\<rparr>"

definition january_requests :: "request list" where
  "january_requests =
     [CreateTransaction 1 \<lparr>transaction_body.type' = Val ''income'',
        transaction_body.category = Val ''Salario'', transaction_body.description = Val ''Janeiro'',
        transaction_body.amount = Val (Num 100), transaction_body.date = Val (ValidDate (2026, 0, 10))\<rparr>,
      CreateTransaction 1 \<lparr>transaction_body.type' = Val ''expense'',
        transaction_body.category = Val ''Mercado'', transaction_body.description = Val ''Compras'',
        transaction_body.amount = Val (Num 40), transaction_body.date = Val (ValidDate (2026, 0, 20))\<rparr>,
      CreateTransaction 1 \<lparr>transaction_body.type' = Val ''income'',
        transaction_body.category = Val ''Extra'', transaction_body.description = Val ''Fevereiro'',
        transaction_body.amount = Val (Num 50), transaction_body.date = Val (ValidDate (2026, 1, 5))\<rparr>]"

definition january_transactions :: "transaction list" where
  "january_transactions =
     [\<lparr>transaction.id' = 1, transaction.userId = 1, transaction.type' = ''income'',
       transaction.category = ''Salario'', transaction.description = ''Janeiro'',
       transaction.amount = 100, transaction.date = (2026, 0, 10)\<rparr>,
      \<lparr>transaction.id' = 2, transaction.userId = 1, transaction.type' = ''expense'',
       transaction.category = ''Mercado'', transaction.description = ''Compras'',
       transaction.amount = 40, transaction.date = (2026, 0, 20)\<rparr>,
      \<lparr>transaction.id' = 3, transaction.userId = 1, transaction.type' = ''income'',
       transaction.category = ''Extra'', transaction.description = ''Fevereiro'',
       transaction.amount = 50, transaction.date = (2026, 1, 5)\<rparr>]"

text \<open>
  Three incomes of 0.1, 0.1 and 0.4, as the doubles these numerals are read as: the
  first and the third in January, the second in February.
\<close>

definition decimal_requests :: "request list" where
  "decimal_requests =
     [CreateTransaction 1 \<lparr>transaction_body.type' = Val ''income'',
        transaction_body.category = Val ''Extra'', transaction_body.description = Val ''Um'',
        transaction_body.amount = Val (Num (fl (1 / 10))),
        transaction_body.date = Val (ValidDate (2026, 0, 10))\<rparr>,
      CreateTransaction 1 \<lparr>transaction_body.type' = Val ''income'',
        transaction_body.category = Val ''Extra'', transaction_body.description = Val ''Dois'',
        transaction_body.amount = Val (Num (fl (1 / 10))),
        transaction_body.date = Val (ValidDate (2026, 1, 5))\<rparr>,
      CreateTransaction 1 \<lparr>transaction_body.type' = Val ''income'',
        transaction_body.category = Val ''Extra'', transaction_body.description = Val ''Tres'',
        transaction_body.amount = Val (Num (fl (4 / 10))),
        transaction_body.date = Val (ValidDate (2026, 0, 20))\<rparr>]"

definition decimal_transactions :: "transaction list" where
  "decimal_transactions =
     [\<lparr>transaction.id' = 1, transaction.userId = 1, transaction.type' = ''income'',
       transaction.category = ''Extra'', transaction.description = ''Um'',
       transaction.amount = fl (1 / 10), transaction.date = (2026, 0, 10)\<rparr>,
      \<lparr>transaction.id' = 2, transaction.userId = 1, transaction.type' = ''income'',
       transaction.category = ''Extra'', transaction.description = ''Dois'',
       transaction.amount = fl (1 / 10), transaction.date = (2026, 1, 5)\<rparr>,
      \<lparr>transaction.id' = 3, transaction.userId = 1, transaction.type' = ''income'',
       transaction.category = ''Extra'', transaction.description = ''Tres'',
       transaction.amount = fl (4 / 10), transaction.date = (2026, 0, 20)\<rparr>]"

section \<open>Doubles\<close>

text \<open>
  Rounding keeps the sign, and a whole number up to 2^53 is a double: arithmetic on
  such numbers is exact as long as the results stay in that range.
\<close>

lemma floor_rat_numeral: "\<lfloor>numeral a / numeral b :: rat\<rfloor> = numeral a div numeral b"
  using floor_divide_of_int_eq [of "numeral a" "numeral b", where ?'a = rat] by simp

lemma ceiling_rat_numeral: "\<lceil>numeral a / numeral b :: rat\<rceil> = - ((- numeral a) div numeral b)"
  using ceiling_divide_eq_div [of "numeral a" "numeral b", where ?'a = rat] by simp


lemma bits_nonneg: "0 \<le> bits k"
proof (induction k rule: bits.induct)
  case (1 k)
  then show ?case by (subst bits.simps) auto
qed

lemma bits_pos: "0 < k \<Longrightarrow> 1 \<le> bits k"
  using bits_nonneg [of "k div 2"] by (subst bits.simps) simp

lemma bits_bounds: "0 < k \<Longrightarrow> 2 ^ nat (bits k - 1) \<le> k \<and> k < 2 ^ nat (bits k)"
proof (induction k rule: bits.induct)
  case (1 k)
  show ?case
  proof (cases "k = 1")
    case True
    then show ?thesis by (simp add: bits.simps)
  next
    case False
    with "1.prems" have h: "0 < k div 2" by simp
    with "1.IH" "1.prems" have ih: "2 ^ nat (bits (k div 2) - 1) \<le> k div 2"
        "k div 2 < 2 ^ nat (bits (k div 2))"
      by simp_all
    from h have b: "1 \<le> bits (k div 2)" by (rule bits_pos)
    from "1.prems" have e: "bits k = 1 + bits (k div 2)"
      by (subst bits.simps) simp
    from b have n: "nat (bits (k div 2)) = Suc (nat (bits (k div 2) - 1))"
      by simp
    from ih(1) have "2 * 2 ^ nat (bits (k div 2) - 1) \<le> k" by simp
    moreover from ih(2) have "k < 2 * 2 ^ nat (bits (k div 2))" by simp
    ultimately show ?thesis
      using b by (simp add: e n nat_add_distrib)
  qed
qed

lemma pow2_pos: "0 < pow2 e"
  by (simp add: pow2_def)

lemma round_even_of_int: "round_even (of_int k) = k"
  by (simp add: round_even_def)

lemma round_even_nonneg: "0 \<le> x \<Longrightarrow> 0 \<le> round_even x"
  by (auto simp: round_even_def Let_def)

lemma fl_nonneg: "0 \<le> x \<Longrightarrow> 0 \<le> fl x"
proof (cases "x = 0")
  case True
  then show ?thesis by (simp add: fl_def)
next
  case False
  assume "0 \<le> x"
  with False have "0 < x" by simp
  then show ?thesis
    using pow2_pos round_even_nonneg [of "x / pow2 (max (ilog2 x - 52) (- 1074))"]
    by (simp add: fl_def Let_def less_imp_le)
qed

lemma fl_minus: "fl (- x) = - fl x"
  by (simp add: fl_def Let_def)

lemma fl_exactI:
  assumes "x \<noteq> 0" and "\<bar>x\<bar> / pow2 (max (ilog2 \<bar>x\<bar> - 52) (- 1074)) = of_int m"
  shows "fl x = x"
proof -
  let ?p = "pow2 (max (ilog2 \<bar>x\<bar> - 52) (- 1074))"
  have p: "?p \<noteq> 0" using pow2_pos [of "max (ilog2 \<bar>x\<bar> - 52) (- 1074)"] by simp
  from assms(2) p have "of_int m * ?p = \<bar>x\<bar>" by (simp add: field_simps)
  then have "sgn x * of_int (round_even (\<bar>x\<bar> / ?p)) * ?p = sgn x * \<bar>x\<bar>"
    by (simp add: assms(2) round_even_of_int mult.assoc)
  with assms(1) show ?thesis
    by (simp add: fl_def Let_def sgn_mult_abs)
qed

lemma fl_of_nat_exact:
  assumes "0 < n" and "n \<le> 2 ^ 53"
  shows "fl (of_int n) = of_int n"
proof -
  let ?b = "bits n"
  let ?x = "of_int n :: rat"
  from assms(1) have nz: "?x \<noteq> 0" and ab: "\<bar>?x\<bar> = ?x" and one: "1 \<le> ?x" by simp_all
  from one have il: "ilog2 ?x = ?b - 1"
    by (simp add: ilog2_def)
  from bits_bounds [OF assms(1)] have lo: "2 ^ nat (?b - 1) \<le> n" and hi: "n < 2 ^ nat ?b"
    by simp_all
  from bits_pos [OF assms(1)] have b1: "1 \<le> ?b" .
  have "\<not> 54 \<le> nat (?b - 1)"
  proof
    assume "54 \<le> nat (?b - 1)"
    then have "(2::int) ^ 54 \<le> 2 ^ nat (?b - 1)" by (rule power_increasing) simp
    with lo assms(2) show False by simp
  qed
  with b1 have b54: "?b \<le> 54" by simp
  show ?thesis
  proof (cases "?b \<le> 53")
    case True
    with b1 have e: "max (ilog2 ?x - 52) (- 1074) = ?b - 53"
      by (simp add: il)
    have "?x / pow2 (?b - 53) = of_int (n * 2 ^ nat (53 - ?b))"
      using True by (cases "?b = 53") (simp_all add: pow2_def)
    then have "\<bar>?x\<bar> / pow2 (max (ilog2 \<bar>?x\<bar> - 52) (- 1074)) = of_int (n * 2 ^ nat (53 - ?b))"
      by (simp only: ab e)
    with nz show ?thesis by (rule fl_exactI)
  next
    case False
    with b54 have b: "?b = 54" by simp
    with lo assms(2) have n: "n = 2 ^ 53" by simp
    from b have e: "max (ilog2 ?x - 52) (- 1074) = 1"
      by (simp add: il)
    have "?x / pow2 1 = of_int (2 ^ 52)"
      by (simp add: n pow2_def)
    then have "\<bar>?x\<bar> / pow2 (max (ilog2 \<bar>?x\<bar> - 52) (- 1074)) = of_int (2 ^ 52)"
      by (simp only: ab e)
    with nz show ?thesis by (rule fl_exactI)
  qed
qed

lemma fl_whole:
  assumes "of_int \<lfloor>r\<rfloor> = r" and "\<bar>r\<bar> \<le> 2 ^ 53"
  shows "fl r = r"
proof -
  define n where "n = \<lfloor>r\<rfloor>"
  have r: "r = of_int n"
    unfolding n_def using assms(1) by (rule sym)
  with assms(2) have bound: "\<bar>n\<bar> \<le> 2 ^ 53"
    by (simp flip: of_int_abs)
  consider "n = 0" | "0 < n" | "n < 0" by linarith
  then show ?thesis
  proof cases
    case 1
    with r show ?thesis by (simp add: fl_def)
  next
    case 2
    with bound have "n \<le> 2 ^ 53" by simp
    with 2 have "fl (of_int n) = of_int n" by (rule fl_of_nat_exact)
    with r show ?thesis by simp
  next
    case 3
    with bound have "0 < - n" and "- n \<le> 2 ^ 53" by simp_all
    then have "fl (of_int (- n)) = of_int (- n)" by (rule fl_of_nat_exact)
    with r show ?thesis using fl_minus [of "of_int n"] by simp
  qed
qed

lemmas fl_eval = fl_def ilog2_def pow2_def round_even_def bits.simps floor_rat_numeral
  ceiling_rat_numeral Let_def

section \<open>Evaluation and lookup lemmas\<close>

lemmas js_defs = truthy_str_def truthy_num_def truthy_date_def isNaN_def toNumber_def
  js_le_def js_lt_def js_ge_def parseFloat_def isDateInPast_def or_null_def or_keep_def
  text_of_def truthy_text_def valid_status_def

lemmas eval_defs = js_defs fl_eval validateIntegerId_def parseInt_def digit_val_def
  id_in_range_def findUnique_goal_def
  goal_update_errors_def goal_updateData_def updateData_status_def finalTargetAmount_def
  finalCurrentAmount_def transaction_update_errors_def transaction_updateData_def
  goal_create_errors_def new_goal_def transaction_create_errors_def new_transaction_def
  findUnique_transaction_def apply_goal_data_def replace_goal_def apply_transaction_data_def
  replace_transaction_def progress_def Math_round_def floor_rat_numeral Let_def

lemmas example_defs = empty_goal_body_def zero_target_body_def zero_amount_body_def
  example_store_def example_goal_def example_transaction_def example_goal_body_def
  example_transaction_body_def completed_goal_def completed_store_def rounding_goal_body_def
  rounding_goal_def

lemma amount_cases [case_names Absent Null Num NonNumeric Boolean BlankString EmptyArray]:
  obtains "a = Absent" | "a = Null" | r where "a = Val (Num r)" | "a = Val NonNumeric"
  | b where "a = Val (Boolean b)" | "a = Val BlankString" | "a = Val EmptyArray"
proof (cases a)
  case (Val x)
  then show ?thesis by (cases x) (auto intro: that)
qed (auto intro: that)

lemma validateIntegerId_1: "validateIntegerId ''1'' = Some 1"
  by (simp add: eval_defs)


lemma validateIntegerId_rounds:
  "validateIntegerId ''9007199254740993'' = Some 9007199254740992
   \<and> validateIntegerId ''9223372036854775807'' = Some 9223372036854775808"
  by (simp add: eval_defs)

lemma findUnique_goal_range: "findUnique_goal s i = Some g \<Longrightarrow> id_in_range i"
  by (simp add: findUnique_goal_def split: if_splits)

lemma findUnique_transaction_range: "findUnique_transaction s i = Some t \<Longrightarrow> id_in_range i"
  by (simp add: findUnique_transaction_def split: if_splits)

lemma run_example_requests: "run example_requests = example_store"
  by (simp add: run_def example_requests_def create_goal_def create_transaction_def
      empty_store_def example_defs eval_defs)

lemma run_completed: "run (example_requests @ [UpdateProgress 1 ''1'' (Val (Num 200))]) = completed_store"
  using run_example_requests
  by (simp add: run_def update_progress_def example_defs eval_defs)

lemma run_rounding:
  "run [CreateGoal 7 (2026, 10, 2) 1 rounding_goal_body] =
     \<lparr>transactions = [], goals = [rounding_goal], nextTransactionId = 1, nextGoalId = 2\<rparr>"
  by (simp add: run_def create_goal_def empty_store_def example_defs eval_defs)

lemma run_decimal_requests:
  "run decimal_requests = \<lparr>transactions = decimal_transactions, goals = [],
      nextTransactionId = 4, nextGoalId = 1\<rparr>"
  by (simp add: run_def decimal_requests_def decimal_transactions_def create_transaction_def
      empty_store_def eval_defs)

lemma run_january_requests:
  "run january_requests = \<lparr>transactions = january_transactions, goals = [],
      nextTransactionId = 4, nextGoalId = 1\<rparr>"
  by (simp add: run_def january_requests_def january_transactions_def create_transaction_def
      empty_store_def eval_defs)

lemma findUnique_example_goal: "findUnique_goal example_store 1 = Some example_goal"
  by (simp add: example_defs eval_defs)

lemma findUnique_completed_goal: "findUnique_goal completed_store 1 = Some completed_goal"
  by (simp add: example_defs eval_defs)

lemma findUnique_example_transaction:
  "findUnique_transaction example_store 1 = Some example_transaction"
  by (simp add: example_defs eval_defs)

lemma findUnique_goal_in:
  "findUnique_goal s i = Some g \<Longrightarrow> g \<in> set (goals s) \<and> goal.id' g = i \<and> id_in_range i"
  by (auto simp: findUnique_goal_def find_Some_iff split: if_splits)

lemma findUnique_transaction_in:
  "findUnique_transaction s i = Some t \<Longrightarrow>
   t \<in> set (transactions s) \<and> transaction.id' t = i \<and> id_in_range i"
  by (auto simp: findUnique_transaction_def find_Some_iff split: if_splits)

lemma find_replaced_goal:
  "find (\<lambda>g. goal.id' g = i) xs = Some g0 \<Longrightarrow> goal.id' g = i \<Longrightarrow>
   find (\<lambda>x. goal.id' x = i) (map (\<lambda>x. if goal.id' x = i then g else x) xs) = Some g"
  by (induction xs) (auto split: if_splits)

lemma findUnique_replace_goal:
  "findUnique_goal s i = Some g0 \<Longrightarrow> goal.id' g = i \<Longrightarrow>
   findUnique_goal (replace_goal g s) i = Some g"
  by (auto simp: findUnique_goal_def replace_goal_def find_replaced_goal split: if_splits)

lemma find_replaced_transaction:
  "find (\<lambda>t. transaction.id' t = i) xs = Some t0 \<Longrightarrow> transaction.id' t = i \<Longrightarrow>
   find (\<lambda>x. transaction.id' x = i) (map (\<lambda>x. if transaction.id' x = i then t else x) xs) = Some t"
  by (induction xs) (auto split: if_splits)

lemma findUnique_replace_transaction:
  "findUnique_transaction s i = Some t0 \<Longrightarrow> transaction.id' t = i \<Longrightarrow>
   findUnique_transaction (replace_transaction t s) i = Some t"
  by (auto simp: findUnique_transaction_def replace_transaction_def find_replaced_transaction
      split: if_splits)

lemma update_goal_Inr:
  assumes "update_goal today uid i b s = (Inr (m, g, p), s')"
    and "validateIntegerId i = Some goalId"
    and "findUnique_goal s goalId = Some g0"
  shows "goal.userId g0 = uid \<and> goal_update_errors today b = None
    \<and> apply_goal_data (goal_updateData g0 b) g0 = Some g
    \<and> m = ''Meta atualizada com sucesso!'' \<and> p = progress g \<and> s' = replace_goal g s"
  using assms
  by (auto simp: update_goal_def split: if_splits option.splits)

lemma update_progress_Inr:
  assumes "update_progress uid i a s = (Inr (m, g, p), s')"
    and "validateIntegerId i = Some goalId"
    and "findUnique_goal s goalId = Some g0"
  shows "\<exists>r. a = Val (Num r) \<and> 0 < r
    \<and> g = g0\<lparr>goal.currentAmount := r, goal.status :=
         (if r \<ge> goal.targetAmount g0 then ''completed'' else goal.status g0)\<rparr>
    \<and> s' = replace_goal g s \<and> p = progress g"
proof -
  from assms obtain r where a: "a = Val (Num r)" and r: "0 < r"
    by (cases a rule: amount_cases)
       (auto simp: update_progress_def truthy_num_def isNaN_def toNumber_def js_lt_def
          parseFloat_def apply_goal_data_def Let_def split: if_splits)
  from assms a have "g = g0\<lparr>goal.currentAmount := r, goal.status :=
       (if r \<ge> goal.targetAmount g0 then ''completed'' else goal.status g0)\<rparr>"
    and "s' = replace_goal g s" and "p = progress g"
    by (auto simp: update_progress_def Let_def parseFloat_def js_ge_def apply_goal_data_def
        or_keep_def split: if_splits)
  with a r show ?thesis by blast
qed

section \<open>Progress updates\<close>

text \<open>
  C3. A successful \<^verbatim>\<open>PUT /api/goals/:id/amount\<close> stores the amount as the goal's
  current amount; when the amount reaches the target the status becomes completed, and
  otherwise the status stays as it was, so a completed goal stays completed also for
  an amount below its target. The target is not touched.
\<close>

theorem update_progress_sets_amount:
  assumes "update_progress uid i a s = (Inr (m, g, p), s')"
    and "validateIntegerId i = Some goalId"
    and "findUnique_goal s goalId = Some g0"
  shows "a = Val (Num (goal.currentAmount g)) \<and> findUnique_goal s' goalId = Some g
    \<and> (goal.currentAmount g \<ge> goal.targetAmount g0 \<longrightarrow> goal.status g = ''completed'')
    \<and> (goal.currentAmount g < goal.targetAmount g0 \<longrightarrow> goal.status g = goal.status g0)
    \<and> (goal.status g0 = ''completed'' \<longrightarrow> goal.status g = ''completed'')
    \<and> goal.targetAmount g = goal.targetAmount g0"
proof -
  from assms(3) have idg: "goal.id' g0 = goalId"
    by (simp add: findUnique_goal_in)
  from update_progress_Inr [OF assms] obtain r where a: "a = Val (Num r)"
    and g: "g = g0\<lparr>goal.currentAmount := r, goal.status :=
       (if r \<ge> goal.targetAmount g0 then ''completed'' else goal.status g0)\<rparr>"
    and s': "s' = replace_goal g s"
    by blast
  from g idg have "goal.id' g = goalId" by simp
  with assms(3) s' have "findUnique_goal s' goalId = Some g"
    by (simp add: findUnique_replace_goal)
  with a g show ?thesis by auto
qed

theorem update_progress_sets_amount_witness:
  "update_progress 1 ''1'' (Val (Num 50)) completed_store =
     (Inr (''Parabens! Meta concluida!'', completed_goal\<lparr>goal.currentAmount := 50\<rparr>, 25),
      completed_store\<lparr>goals := [completed_goal\<lparr>goal.currentAmount := 50\<rparr>]\<rparr>)
   \<and> findUnique_goal (completed_store\<lparr>goals := [completed_goal\<lparr>goal.currentAmount := 50\<rparr>]\<rparr>) 1
       = Some (completed_goal\<lparr>goal.currentAmount := 50\<rparr>)
   \<and> goal.status (completed_goal\<lparr>goal.currentAmount := 50\<rparr>) = ''completed''
   \<and> goal.targetAmount (completed_goal\<lparr>goal.currentAmount := 50\<rparr>) = 200"
proof -
  have u: "update_progress 1 ''1'' (Val (Num 50)) completed_store =
     (Inr (''Parabens! Meta concluida!'', completed_goal\<lparr>goal.currentAmount := 50\<rparr>, 25),
      completed_store\<lparr>goals := [completed_goal\<lparr>goal.currentAmount := 50\<rparr>]\<rparr>)"
    by (simp add: update_progress_def example_defs eval_defs)
  from update_progress_sets_amount [OF u validateIntegerId_1 findUnique_completed_goal] u
  show ?thesis by (simp add: example_defs)
qed

text \<open>
  C4, as the code has it. The message of a successful
  \<^verbatim>\<open>PUT /api/goals/:id/amount\<close> is chosen from the status after the call: the
  congratulation when the goal then is completed, whether it was completed before the
  call or not, and the plain progress message otherwise.
\<close>

theorem update_progress_message:
  assumes "update_progress uid i a s = (Inr (m, g, p), s')"
  shows "(goal.status g = ''completed'' \<longrightarrow> m = ''Parabens! Meta concluida!'')
    \<and> (goal.status g \<noteq> ''completed'' \<longrightarrow> m = ''Progresso atualizado com sucesso!'')"
  using assms
  by (auto simp: update_progress_def Let_def apply_goal_data_def or_keep_def
      split: option.splits if_splits)

theorem update_progress_message_witness:
  "update_progress 1 ''1'' (Val (Num 60)) example_store =
     (Inr (''Progresso atualizado com sucesso!'', example_goal\<lparr>goal.currentAmount := 60\<rparr>, 30),
      example_store\<lparr>goals := [example_goal\<lparr>goal.currentAmount := 60\<rparr>]\<rparr>)
   \<and> goal.status (example_goal\<lparr>goal.currentAmount := 60\<rparr>) \<noteq> ''completed''"
proof -
  have u: "update_progress 1 ''1'' (Val (Num 60)) example_store =
     (Inr (''Progresso atualizado com sucesso!'', example_goal\<lparr>goal.currentAmount := 60\<rparr>, 30),
      example_store\<lparr>goals := [example_goal\<lparr>goal.currentAmount := 60\<rparr>]\<rparr>)"
    by (simp add: update_progress_def example_defs eval_defs)
  from update_progress_message [OF u] u show ?thesis by (simp add: example_defs)
qed

theorem update_progress_message_counterexample:
  "run (example_requests @ [UpdateProgress 1 ''1'' (Val (Num 200))]) = completed_store
   \<and> findUnique_goal completed_store 1 = Some completed_goal
   \<and> goal.status completed_goal = ''completed''
   \<and> update_progress 1 ''1'' (Val (Num 50)) completed_store =
     (Inr (''Parabens! Meta concluida!'', completed_goal\<lparr>goal.currentAmount := 50\<rparr>, 25),
      completed_store\<lparr>goals := [completed_goal\<lparr>goal.currentAmount := 50\<rparr>]\<rparr>)"
  using run_completed findUnique_completed_goal
  by (simp add: update_progress_def example_defs eval_defs)

section \<open>Validation of amounts\<close>

text \<open>
  What the amount check of \<^verbatim>\<open>PUT /api/goals/:id/amount\<close> refuses: the amount 0,
  no amount, \<^verbatim>\<open>null\<close>, \<^verbatim>\<open>false\<close>, a text with no numeric reading and a negative
  amount answer 400 and leave the tables as they were; with a well-formed id the error
  is the one of the amount check.
\<close>

lemma update_progress_rejects:
  assumes "a = Absent \<or> a = Null \<or> a = Val NonNumeric \<or> a = Val (Boolean False)
      \<or> (\<exists>r. a = Val (Num r) \<and> r \<le> 0)"
  shows "failed_with 400 (fst (update_progress uid i a s))
    \<and> snd (update_progress uid i a s) = s
    \<and> (validateIntegerId i \<noteq> None \<longrightarrow>
         fst (update_progress uid i a s) = Inl (Error 400 ''Valor deve ser um numero nao-negativo''))"
  using assms
  by (auto simp: update_progress_def failed_with_def truthy_num_def isNaN_def toNumber_def
      js_lt_def split: option.splits)

text \<open>
  C5, where the code misses it. The amount check tests \<^verbatim>\<open>isNaN(amount)\<close>, which
  reads \<^verbatim>\<open>true\<close> as 1 and a blank string and an empty array as 0: these values,
  none of them a number, pass the check. \<^verbatim>\<open>parseFloat\<close> then reads \<^verbatim>\<open>NaN\<close> from
  them, the write of the goal raises, and the caller of the goal's owner gets the 500
  of the handler's \<^verbatim>\<open>catch\<close> where the check was to answer 400. The tables stay
  as they were. This holds for every goal of the caller.
\<close>

theorem update_progress_passes_non_numbers:
  assumes "validateIntegerId i = Some goalId"
    and "findUnique_goal s goalId = Some g0"
    and "goal.userId g0 = uid"
    and "a = Val (Boolean True) \<or> a = Val BlankString \<or> a = Val EmptyArray"
  shows "update_progress uid i a s = (Inl (Error 500 ''Erro ao atualizar progresso''), s)"
  using assms findUnique_goal_range [OF assms(2)]
  by (auto simp: update_progress_def truthy_num_def isNaN_def toNumber_def js_lt_def
      parseFloat_def apply_goal_data_def Let_def)

theorem update_progress_passes_non_numbers_witness:
  "findUnique_goal example_store 1 = Some example_goal \<and> goal.userId example_goal = 1
   \<and> update_progress 1 ''1'' (Val (Boolean True)) example_store =
     (Inl (Error 500 ''Erro ao atualizar progresso''), example_store)
   \<and> update_progress 1 ''1'' (Val BlankString) example_store =
     (Inl (Error 500 ''Erro ao atualizar progresso''), example_store)
   \<and> update_progress 1 ''1'' (Val EmptyArray) example_store =
     (Inl (Error 500 ''Erro ao atualizar progresso''), example_store)"
proof -
  have u: "goal.userId example_goal = 1"
    by (simp add: example_defs)
  note bug = update_progress_passes_non_numbers [OF validateIntegerId_1 findUnique_example_goal u]
  from bug [of "Val (Boolean True)"] bug [of "Val BlankString"] bug [of "Val EmptyArray"]
    findUnique_example_goal u
  show ?thesis by simp
qed

text \<open>
  C9, as the code has it. In \<^verbatim>\<open>PUT /api/goals/:id\<close> on a goal of the caller, a
  negative target amount is refused with 400 and nothing is written; a target amount
  of 0 is falsy and is handled as a key that is missing: the request does what it
  does without the key.
\<close>

theorem update_goal_target_validation:
  assumes "validateIntegerId i = Some goalId"
    and "findUnique_goal s goalId = Some g0"
    and "goal.userId g0 = uid"
    and "goal_body.targetAmount b = Val (Num r)"
  shows "(r < 0 \<longrightarrow> update_goal today uid i b s =
            (Inl (Error 400 ''Valor alvo deve ser um numero positivo''), s))
    \<and> (r = 0 \<longrightarrow> update_goal today uid i b s =
            update_goal today uid i (b\<lparr>goal_body.targetAmount := Absent\<rparr>) s)"
proof (intro conjI impI)
  assume "r < 0"
  with assms(4) have "goal_update_errors today b =
      Some (Error 400 ''Valor alvo deve ser um numero positivo'')"
    by (simp add: goal_update_errors_def truthy_num_def isNaN_def toNumber_def js_le_def)
  with assms(1-3) findUnique_goal_range [OF assms(2)] show "update_goal today uid i b s =
      (Inl (Error 400 ''Valor alvo deve ser um numero positivo''), s)"
    by (simp add: update_goal_def)
next
  assume "r = 0"
  with assms(4) have z: "goal_body.targetAmount b = Val (Num 0)" by simp
  then have e: "goal_update_errors today (b\<lparr>goal_body.targetAmount := Absent\<rparr>)
      = goal_update_errors today b"
    by (simp add: goal_update_errors_def truthy_num_def)
  from z have "finalTargetAmount g0 (b\<lparr>goal_body.targetAmount := Absent\<rparr>) = finalTargetAmount g0 b"
    and "finalCurrentAmount g0 (b\<lparr>goal_body.targetAmount := Absent\<rparr>) = finalCurrentAmount g0 b"
    by (simp_all add: finalTargetAmount_def finalCurrentAmount_def truthy_num_def)
  then have "updateData_status g0 (b\<lparr>goal_body.targetAmount := Absent\<rparr>) = updateData_status g0 b"
    by (simp add: updateData_status_def)
  with z have d: "goal_updateData g0 (b\<lparr>goal_body.targetAmount := Absent\<rparr>) = goal_updateData g0 b"
    by (simp add: goal_updateData_def truthy_num_def)
  from assms(1-3) findUnique_goal_range [OF assms(2)] e d show "update_goal today uid i b s =
      update_goal today uid i (b\<lparr>goal_body.targetAmount := Absent\<rparr>) s"
    by (simp add: update_goal_def cong: option.case_cong)
qed

theorem update_goal_target_validation_witness:
  "update_goal (2026, 10, 2) 1 ''1'' (zero_target_body\<lparr>goal_body.targetAmount := Val (Num (- 5))\<rparr>)
       example_store
     = (Inl (Error 400 ''Valor alvo deve ser um numero positivo''), example_store)
   \<and> update_goal (2026, 10, 2) 1 ''1'' zero_target_body example_store
     = update_goal (2026, 10, 2) 1 ''1'' (zero_target_body\<lparr>goal_body.targetAmount := Absent\<rparr>)
         example_store"
proof -
  have b: "goal_body.targetAmount (zero_target_body\<lparr>goal_body.targetAmount := Val (Num (- 5))\<rparr>)
      = Val (Num (- 5))"
    by simp
  have z: "goal_body.targetAmount zero_target_body = Val (Num 0)"
    by (simp add: zero_target_body_def)
  have u: "goal.userId example_goal = 1"
    by (simp add: example_defs)
  from update_goal_target_validation [OF validateIntegerId_1 findUnique_example_goal u b]
    update_goal_target_validation [OF validateIntegerId_1 findUnique_example_goal u z]
  show ?thesis by simp
qed

theorem update_goal_target_validation_counterexample:
  "goal_body.targetAmount zero_target_body = Val (Num 0)
   \<and> update_goal (2026, 10, 2) 1 ''1'' zero_target_body example_store =
       (Inr (''Meta atualizada com sucesso!'', example_goal, 25), example_store)"
  by (simp add: update_goal_def example_defs eval_defs)

text \<open>
  C10. \<^verbatim>\<open>PUT /api/transactions/:id\<close> on a transaction of the caller with the
  amount 0, a type that is missing or one of the two kinds, and a date that is missing
  or parses: the request succeeds and the stored amount is the one from before.
\<close>

theorem update_transaction_zero_amount:
  assumes "validateIntegerId i = Some transactionId"
    and "findUnique_transaction s transactionId = Some t0"
    and "transaction.userId t0 = uid"
    and "transaction_body.amount b = Val (Num 0)"
    and "\<not> truthy_str (transaction_body.type' b) \<or> transaction_body.type' b = Val ''expense''
           \<or> transaction_body.type' b = Val ''income''"
    and "transaction_body.date b \<noteq> Val InvalidDate"
  shows "\<exists>t. update_transaction uid i b s =
            (Inr (''Transacao atualizada com sucesso!'', t), replace_transaction t s)
          \<and> findUnique_transaction (replace_transaction t s) transactionId = Some t
          \<and> transaction.amount t = transaction.amount t0"
proof -
  from assms(2) have i: "transaction.id' t0 = transactionId"
    by (simp add: findUnique_transaction_in)
  from assms(4-6) have e: "transaction_update_errors b = None"
    by (auto simp: transaction_update_errors_def truthy_num_def text_of_def)
  from assms(4) have d: "transaction_data.amount (transaction_updateData b) = None"
    by (simp add: transaction_updateData_def truthy_num_def)
  then obtain t where t: "apply_transaction_data (transaction_updateData b) t0 = Some t"
    by (simp add: apply_transaction_data_def)
  with d i have a: "transaction.amount t = transaction.amount t0"
    and i': "transaction.id' t = transactionId"
    by (auto simp: apply_transaction_data_def or_keep_def)
  from assms(1-3) findUnique_transaction_range [OF assms(2)] e t
  have "update_transaction uid i b s =
      (Inr (''Transacao atualizada com sucesso!'', t), replace_transaction t s)"
    by (simp add: update_transaction_def)
  with a i' assms(2) show ?thesis
    by (auto simp: findUnique_replace_transaction)
qed

theorem update_transaction_zero_amount_witness:
  "update_transaction 1 ''1'' zero_amount_body example_store =
     (Inr (''Transacao atualizada com sucesso!'', example_transaction), example_store)
   \<and> transaction.amount example_transaction = 100"
proof -
  have u: "transaction.userId example_transaction = 1"
    by (simp add: example_defs)
  have a: "transaction_body.amount zero_amount_body = Val (Num 0)"
    by (simp add: zero_amount_body_def)
  have ty: "\<not> truthy_str (transaction_body.type' zero_amount_body)
      \<or> transaction_body.type' zero_amount_body = Val ''expense''
      \<or> transaction_body.type' zero_amount_body = Val ''income''"
    by (simp add: zero_amount_body_def truthy_str_def)
  have d: "transaction_body.date zero_amount_body \<noteq> Val InvalidDate"
    by (simp add: zero_amount_body_def)
  have e: "update_transaction 1 ''1'' zero_amount_body example_store =
     (Inr (''Transacao atualizada com sucesso!'', example_transaction), example_store)"
    by (simp add: update_transaction_def example_defs eval_defs)
  from update_transaction_zero_amount [OF validateIntegerId_1 findUnique_example_transaction u a ty d] e
  show ?thesis by (simp add: example_defs)
qed


section \<open>Goal updates\<close>

text \<open>
  C2. After a successful \<^verbatim>\<open>PUT /api/goals/:id\<close> the stored goal is the returned
  one, with the amounts of the body where they are supplied (a target of 0 counts as
  not supplied) and the old ones otherwise. Without a status in the body (missing, null
  or empty), a current amount that reaches the target completes the goal, a completed
  goal whose current amount is below the target becomes active again, and any other
  goal keeps its status. A status in the body is one of the three and is stored as it
  is.
\<close>

theorem update_goal_status:
  assumes "update_goal today uid i b s = (Inr (m, g, p), s')"
    and "validateIntegerId i = Some goalId"
    and "findUnique_goal s goalId = Some g0"
  shows "findUnique_goal s' goalId = Some g
    \<and> goal.targetAmount g =
        (case goal_body.targetAmount b of
           Val (Num r) \<Rightarrow> (if r = 0 then goal.targetAmount g0 else r)
         | _ \<Rightarrow> goal.targetAmount g0)
    \<and> goal.currentAmount g =
        (case goal_body.currentAmount b of Val (Num r) \<Rightarrow> r | _ \<Rightarrow> goal.currentAmount g0)
    \<and> (\<not> truthy_str (goal_body.status b) \<longrightarrow>
          (goal.currentAmount g \<ge> goal.targetAmount g \<longrightarrow> goal.status g = ''completed'')
        \<and> (goal.status g0 = ''completed'' \<and> goal.currentAmount g < goal.targetAmount g
             \<longrightarrow> goal.status g = ''active'')
        \<and> (goal.status g0 \<noteq> ''completed'' \<and> goal.currentAmount g < goal.targetAmount g
             \<longrightarrow> goal.status g = goal.status g0))
    \<and> (truthy_str (goal_body.status b) \<longrightarrow>
          goal_body.status b = Val (goal.status g) \<and> valid_status (goal.status g))"
proof -
  from assms(3) have idg: "goal.id' g0 = goalId"
    by (simp add: findUnique_goal_in)
  from update_goal_Inr [OF assms] have
    ve: "goal_update_errors today b = None"
    and ap: "apply_goal_data (goal_updateData g0 b) g0 = Some g"
    and s': "s' = replace_goal g s"
    by simp_all
  from ap have nn: "goal_data.targetAmount (goal_updateData g0 b) \<noteq> Some None"
      "goal_data.currentAmount (goal_updateData g0 b) \<noteq> Some None"
    and g: "g = g0\<lparr>goal.name := or_keep (goal_data.name (goal_updateData g0 b)) (goal.name g0),
        goal.targetAmount := or_keep (Option.bind (goal_data.targetAmount (goal_updateData g0 b)) id) (goal.targetAmount g0),
        goal.currentAmount := or_keep (Option.bind (goal_data.currentAmount (goal_updateData g0 b)) id) (goal.currentAmount g0),
        goal.deadline := or_keep (goal_data.deadline (goal_updateData g0 b)) (goal.deadline g0),
        goal.category := or_keep (goal_data.category (goal_updateData g0 b)) (goal.category g0),
        goal.description := or_keep (goal_data.description (goal_updateData g0 b)) (goal.description g0),
        goal.status := or_keep (goal_data.status (goal_updateData g0 b)) (goal.status g0)\<rparr>"
    by (auto simp: apply_goal_data_def split: if_splits)
  from g idg have "goal.id' g = goalId" by simp
  with assms(3) s' have f: "findUnique_goal s' goalId = Some g"
    by (simp add: findUnique_replace_goal)
  have ft: "finalTargetAmount g0 b = Some (goal.targetAmount g)"
    using g nn(1)
    by (cases "goal_body.targetAmount b" rule: amount_cases)
       (auto simp: goal_updateData_def finalTargetAmount_def truthy_num_def parseFloat_def or_keep_def)
  have fc: "finalCurrentAmount g0 b = Some (goal.currentAmount g)"
    using g nn(2)
    by (cases "goal_body.currentAmount b" rule: amount_cases)
       (auto simp: goal_updateData_def finalCurrentAmount_def parseFloat_def or_keep_def)
  have t: "goal.targetAmount g =
        (case goal_body.targetAmount b of
           Val (Num r) \<Rightarrow> (if r = 0 then goal.targetAmount g0 else r)
         | _ \<Rightarrow> goal.targetAmount g0)"
    using ft
    by (auto simp: finalTargetAmount_def truthy_num_def parseFloat_def
        split: field.splits jsamount.splits if_splits)
  have c: "goal.currentAmount g =
        (case goal_body.currentAmount b of Val (Num r) \<Rightarrow> r | _ \<Rightarrow> goal.currentAmount g0)"
    using fc by (auto simp: finalCurrentAmount_def parseFloat_def split: field.splits jsamount.splits)
  have sg: "goal.status g = or_keep (updateData_status g0 b) (goal.status g0)"
    using g by (simp add: goal_updateData_def)
  have a: "\<not> truthy_str (goal_body.status b) \<longrightarrow>
          (goal.currentAmount g \<ge> goal.targetAmount g \<longrightarrow> goal.status g = ''completed'')
        \<and> (goal.status g0 = ''completed'' \<and> goal.currentAmount g < goal.targetAmount g
             \<longrightarrow> goal.status g = ''active'')
        \<and> (goal.status g0 \<noteq> ''completed'' \<and> goal.currentAmount g < goal.targetAmount g
             \<longrightarrow> goal.status g = goal.status g0)"
    using sg by (auto simp: updateData_status_def ft fc js_ge_def js_lt_def or_keep_def)
  have e: "truthy_str (goal_body.status b) \<longrightarrow>
          goal_body.status b = Val (goal.status g) \<and> valid_status (goal.status g)"
    using sg ve
    by (cases "goal_body.status b")
       (auto simp: updateData_status_def goal_update_errors_def or_keep_def truthy_str_def
          split: if_splits)
  from f t c a e show ?thesis by blast
qed


theorem update_goal_status_witness:
  "update_goal (2026, 10, 2) 1 ''1'' (empty_goal_body\<lparr>goal_body.currentAmount := Val (Num 250)\<rparr>)
       example_store
     = (Inr (''Meta atualizada com sucesso!'',
             example_goal\<lparr>goal.currentAmount := 250, goal.status := ''completed''\<rparr>, 100),
        example_store\<lparr>goals :=
          [example_goal\<lparr>goal.currentAmount := 250, goal.status := ''completed''\<rparr>]\<rparr>)
   \<and> findUnique_goal
        (example_store\<lparr>goals :=
          [example_goal\<lparr>goal.currentAmount := 250, goal.status := ''completed''\<rparr>]\<rparr>) 1
       = Some (example_goal\<lparr>goal.currentAmount := 250, goal.status := ''completed''\<rparr>)
   \<and> update_goal (2026, 10, 2) 1 ''1'' (empty_goal_body\<lparr>goal_body.currentAmount := Val (Num 50)\<rparr>)
       completed_store
     = (Inr (''Meta atualizada com sucesso!'',
             completed_goal\<lparr>goal.currentAmount := 50, goal.status := ''active''\<rparr>, 25),
        completed_store\<lparr>goals :=
          [completed_goal\<lparr>goal.currentAmount := 50, goal.status := ''active''\<rparr>]\<rparr>)
   \<and> update_goal (2026, 10, 2) 1 ''1'' (empty_goal_body\<lparr>goal_body.status := Val ''cancelled''\<rparr>)
       example_store
     = (Inr (''Meta atualizada com sucesso!'', example_goal\<lparr>goal.status := ''cancelled''\<rparr>, 25),
        example_store\<lparr>goals := [example_goal\<lparr>goal.status := ''cancelled''\<rparr>]\<rparr>)"
proof -
  have u: "update_goal (2026, 10, 2) 1 ''1''
       (empty_goal_body\<lparr>goal_body.currentAmount := Val (Num 250)\<rparr>) example_store
     = (Inr (''Meta atualizada com sucesso!'',
             example_goal\<lparr>goal.currentAmount := 250, goal.status := ''completed''\<rparr>, 100),
        example_store\<lparr>goals :=
          [example_goal\<lparr>goal.currentAmount := 250, goal.status := ''completed''\<rparr>]\<rparr>)"
    by (simp add: update_goal_def example_defs eval_defs)
  have v: "update_goal (2026, 10, 2) 1 ''1''
       (empty_goal_body\<lparr>goal_body.currentAmount := Val (Num 50)\<rparr>) completed_store
     = (Inr (''Meta atualizada com sucesso!'',
             completed_goal\<lparr>goal.currentAmount := 50, goal.status := ''active''\<rparr>, 25),
        completed_store\<lparr>goals :=
          [completed_goal\<lparr>goal.currentAmount := 50, goal.status := ''active''\<rparr>]\<rparr>)"
    by (simp add: update_goal_def example_defs eval_defs)
  have w: "update_goal (2026, 10, 2) 1 ''1''
       (empty_goal_body\<lparr>goal_body.status := Val ''cancelled''\<rparr>) example_store
     = (Inr (''Meta atualizada com sucesso!'', example_goal\<lparr>goal.status := ''cancelled''\<rparr>, 25),
        example_store\<lparr>goals := [example_goal\<lparr>goal.status := ''cancelled''\<rparr>]\<rparr>)"
    by (simp add: update_goal_def example_defs eval_defs)
  from update_goal_status [OF u validateIntegerId_1 findUnique_example_goal]
    update_goal_status [OF v validateIntegerId_1 findUnique_completed_goal]
    update_goal_status [OF w validateIntegerId_1 findUnique_example_goal] u v w
  show ?thesis by simp
qed

section \<open>Ownership\<close>




section \<open>What every history keeps\<close>

text \<open>
  Every stored goal has a positive target and a current amount that is not negative,
  and every stored transaction is an income or an expense: each handler checks what it
  writes.
\<close>

lemma progress_double: "goal_ok g \<Longrightarrow> progress g = double_progress g"
proof -
  assume ok: "goal_ok g"
  then have "0 \<le> goal.currentAmount g / goal.targetAmount g"
    by (simp add: goal_ok_def)
  then have "0 \<le> fl (goal.currentAmount g / goal.targetAmount g)"
    by (rule fl_nonneg)
  then have "0 \<le> fl (goal.currentAmount g / goal.targetAmount g) * 100"
    by simp
  then have "0 \<le> fl (fl (goal.currentAmount g / goal.targetAmount g) * 100)"
    by (rule fl_nonneg)
  then have "0 \<le> \<lfloor>fl (fl (goal.currentAmount g / goal.targetAmount g) * 100) + 1 / 2\<rfloor>"
    by simp
  with ok show ?thesis
    by (simp add: progress_def double_progress_def clamp_def Math_round_def round_def
        goal_ok_def)
qed

lemma list_all_replace:
  "list_all P xs \<Longrightarrow> P y \<Longrightarrow> list_all P (map (\<lambda>x. if Q x then y else x) xs)"
  by (induction xs) auto

lemma apply_goal_data_ok:
  assumes "goal_ok g0" and "goal_update_errors today b = None"
    and "apply_goal_data (goal_updateData g0 b) g0 = Some g"
  shows "goal_ok g"
proof -
  from assms(2) have t: "truthy_num (goal_body.targetAmount b) \<longrightarrow>
      \<not> js_le (toNumber (goal_body.targetAmount b)) (Some 0)"
    and c: "goal_body.currentAmount b \<noteq> Absent \<longrightarrow>
      \<not> isNaN (goal_body.currentAmount b) \<and> \<not> js_lt (toNumber (goal_body.currentAmount b)) (Some 0)"
    by (auto simp: goal_update_errors_def split: if_splits)
  from assms(3) have nn: "goal_data.targetAmount (goal_updateData g0 b) \<noteq> Some None"
      "goal_data.currentAmount (goal_updateData g0 b) \<noteq> Some None"
    and tg: "goal.targetAmount g =
       or_keep (Option.bind (goal_data.targetAmount (goal_updateData g0 b)) id) (goal.targetAmount g0)"
    and cg: "goal.currentAmount g =
       or_keep (Option.bind (goal_data.currentAmount (goal_updateData g0 b)) id) (goal.currentAmount g0)"
    by (auto simp: apply_goal_data_def split: if_splits)
  have "0 < goal.targetAmount g"
    using tg t assms(1)
    by (cases "goal_body.targetAmount b" rule: amount_cases)
       (auto simp: goal_updateData_def truthy_num_def parseFloat_def toNumber_def js_le_def
          or_keep_def goal_ok_def)
  moreover have "0 \<le> goal.currentAmount g"
    using cg c nn(2) assms(1)
    by (cases "goal_body.currentAmount b" rule: amount_cases)
       (auto simp: goal_updateData_def parseFloat_def toNumber_def js_lt_def isNaN_def
          or_keep_def goal_ok_def)
  ultimately show ?thesis by (simp add: goal_ok_def)
qed

lemma update_goal_store:
  "snd (update_goal today uid i b s) = s
   \<or> (\<exists>n g0 g. findUnique_goal s n = Some g0 \<and> goal_update_errors today b = None
        \<and> apply_goal_data (goal_updateData g0 b) g0 = Some g
        \<and> snd (update_goal today uid i b s) = replace_goal g s)"
  by (auto simp: update_goal_def split: option.splits)

lemma store_ok_replace_goal: "store_ok s \<Longrightarrow> goal_ok g \<Longrightarrow> store_ok (replace_goal g s)"
  by (simp add: store_ok_def replace_goal_def list_all_replace)

lemma store_ok_replace_transaction:
  "store_ok s \<Longrightarrow> transaction_ok t \<Longrightarrow> store_ok (replace_transaction t s)"
  by (simp add: store_ok_def replace_transaction_def list_all_replace)

lemma store_ok_goal: "store_ok s \<Longrightarrow> findUnique_goal s n = Some g \<Longrightarrow> goal_ok g"
  by (auto simp: store_ok_def list_all_iff dest: findUnique_goal_in)

lemma store_ok_transaction:
  "store_ok s \<Longrightarrow> findUnique_transaction s n = Some t \<Longrightarrow> transaction_ok t"
  by (auto simp: store_ok_def list_all_iff dest: findUnique_transaction_in)

lemma update_goal_ok:
  assumes "store_ok s"
  shows "store_ok (snd (update_goal today uid i b s))"
proof -
  from update_goal_store [of today uid i b s] show ?thesis
  proof (elim disjE exE conjE)
    assume "snd (update_goal today uid i b s) = s"
    with assms show ?thesis by simp
  next
    fix n g0 g
    assume f: "findUnique_goal s n = Some g0" and e: "goal_update_errors today b = None"
      and a: "apply_goal_data (goal_updateData g0 b) g0 = Some g"
      and r: "snd (update_goal today uid i b s) = replace_goal g s"
    from assms f have "goal_ok g0" by (rule store_ok_goal)
    then have "goal_ok g" using e a by (rule apply_goal_data_ok)
    with assms r show ?thesis by (simp add: store_ok_replace_goal)
  qed
qed

lemma update_progress_store:
  "snd (update_progress uid i a s) = s
   \<or> (\<exists>n g0 r. findUnique_goal s n = Some g0 \<and> a = Val (Num r) \<and> 0 < r
        \<and> snd (update_progress uid i a s) =
            replace_goal (g0\<lparr>goal.currentAmount := r, goal.status :=
              (if r \<ge> goal.targetAmount g0 then ''completed'' else goal.status g0)\<rparr>) s)"
  by (cases a rule: amount_cases)
     (auto simp: update_progress_def Let_def truthy_num_def isNaN_def toNumber_def js_lt_def
        js_ge_def parseFloat_def apply_goal_data_def or_keep_def split: option.splits)

lemma update_progress_ok:
  assumes "store_ok s"
  shows "store_ok (snd (update_progress uid i a s))"
proof -
  from update_progress_store [of uid i a s] show ?thesis
  proof (elim disjE exE conjE)
    assume "snd (update_progress uid i a s) = s"
    with assms show ?thesis by simp
  next
    fix n g0 r
    assume f: "findUnique_goal s n = Some g0" and r: "0 < r"
      and u: "snd (update_progress uid i a s) =
            replace_goal (g0\<lparr>goal.currentAmount := r, goal.status :=
              (if r \<ge> goal.targetAmount g0 then ''completed'' else goal.status g0)\<rparr>) s"
    from assms f have "goal_ok g0" by (rule store_ok_goal)
    with r have "goal_ok (g0\<lparr>goal.currentAmount := r, goal.status :=
              (if r \<ge> goal.targetAmount g0 then ''completed'' else goal.status g0)\<rparr>)"
      by (simp add: goal_ok_def)
    with assms u show ?thesis by (simp add: store_ok_replace_goal)
  qed
qed

lemma delete_goal_ok: "store_ok s \<Longrightarrow> store_ok (snd (delete_goal uid i s))"
  by (auto simp: delete_goal_def store_ok_def list_all_iff split: option.splits)

lemma delete_transaction_ok: "store_ok s \<Longrightarrow> store_ok (snd (delete_transaction uid i s))"
  by (auto simp: delete_transaction_def store_ok_def list_all_iff split: option.splits)


lemma new_goal_ok:
  assumes "goal_create_errors today b = None" and "new_goal now uid b s = Some g"
  shows "goal_ok g"
proof -
  from assms(1) have t: "truthy_num (goal_body.targetAmount b)"
      "\<not> isNaN (goal_body.targetAmount b)"
      "\<not> js_le (toNumber (goal_body.targetAmount b)) (Some 0)"
    and c: "goal_body.currentAmount b \<noteq> Absent \<longrightarrow>
      \<not> js_lt (toNumber (goal_body.currentAmount b)) (Some 0)"
    by (auto simp: goal_create_errors_def split: if_splits)
  from assms(2) obtain x where x: "goal_body.targetAmount b = Val (Num x)"
    by (cases "goal_body.targetAmount b" rule: amount_cases)
       (auto simp: new_goal_def Let_def parseFloat_def)
  with t(3) have "0 < x"
    by (simp add: toNumber_def js_le_def)
  note x = x this
  from assms(2) x have tg: "goal.targetAmount g = x"
    by (auto simp: new_goal_def Let_def parseFloat_def split: option.splits field.splits jsamount.splits jsdate.splits)
  from assms(2) have cg: "Some (goal.currentAmount g) =
      (if truthy_num (goal_body.currentAmount b)
       then parseFloat (goal_body.currentAmount b) else Some 0)"
    by (auto simp: new_goal_def Let_def split: option.splits field.splits jsamount.splits jsdate.splits)
  have "0 \<le> goal.currentAmount g"
    using cg c
    by (cases "goal_body.currentAmount b" rule: amount_cases)
       (auto simp: truthy_num_def parseFloat_def toNumber_def js_lt_def split: if_splits)
  with tg x show ?thesis by (simp add: goal_ok_def)
qed

lemma create_goal_ok:
  assumes "store_ok s"
  shows "store_ok (snd (create_goal now today uid b s))"
proof (cases "goal_create_errors today b")
  case (Some e)
  with assms show ?thesis by (simp add: create_goal_def)
next
  case None
  show ?thesis
  proof (cases "new_goal now uid b s")
    case (Some g)
    with None have "goal_ok g" by (simp add: new_goal_ok)
    with assms None Some show ?thesis by (simp add: create_goal_def store_ok_def)
  next
    case None
    with \<open>goal_create_errors today b = None\<close> assms show ?thesis by (simp add: create_goal_def)
  qed
qed

lemma new_transaction_ok:
  assumes "transaction_create_errors b = None" and "new_transaction uid b s = Some t"
  shows "transaction_ok t"
proof -
  from assms(1) have "text_of (transaction_body.type' b) = ''expense''
      \<or> text_of (transaction_body.type' b) = ''income''"
    and am: "\<not> js_le (toNumber (transaction_body.amount b)) (Some 0)"
    by (auto simp: transaction_create_errors_def split: if_splits)
  moreover from assms(2) have "transaction.type' t = text_of (transaction_body.type' b)"
    by (auto simp: new_transaction_def split: option.splits field.splits jsamount.splits jsdate.splits)
  moreover from assms(2) have "transaction_body.amount b = Val (Num (transaction.amount t))"
    by (cases "transaction_body.amount b" rule: amount_cases)
       (auto simp: new_transaction_def parseFloat_def split: field.splits jsdate.splits)
  with am have "0 < transaction.amount t"
    by (simp add: toNumber_def js_le_def)
  ultimately show ?thesis by (auto simp: transaction_ok_def)
qed

lemma create_transaction_ok:
  assumes "store_ok s"
  shows "store_ok (snd (create_transaction uid b s))"
proof (cases "transaction_create_errors b")
  case (Some e)
  with assms show ?thesis by (simp add: create_transaction_def)
next
  case None
  show ?thesis
  proof (cases "new_transaction uid b s")
    case (Some t)
    with None have "transaction_ok t" by (simp add: new_transaction_ok)
    with assms None Some show ?thesis by (simp add: create_transaction_def store_ok_def)
  next
    case None
    with \<open>transaction_create_errors b = None\<close> assms show ?thesis
      by (simp add: create_transaction_def)
  qed
qed

lemma update_transaction_store:
  "snd (update_transaction uid i b s) = s
   \<or> (\<exists>n t0 t. findUnique_transaction s n = Some t0 \<and> transaction_update_errors b = None
        \<and> apply_transaction_data (transaction_updateData b) t0 = Some t
        \<and> snd (update_transaction uid i b s) = replace_transaction t s)"
  by (auto simp: update_transaction_def split: option.splits)

lemma apply_transaction_data_ok:
  assumes "transaction_ok t0" and "transaction_update_errors b = None"
    and "apply_transaction_data (transaction_updateData b) t0 = Some t"
  shows "transaction_ok t"
proof -
  from assms(2) have ty: "truthy_str (transaction_body.type' b) \<longrightarrow>
      text_of (transaction_body.type' b) = ''expense'' \<or> text_of (transaction_body.type' b) = ''income''"
    by (auto simp: transaction_update_errors_def split: if_splits)
  from assms(2) have am: "truthy_num (transaction_body.amount b) \<longrightarrow>
      \<not> js_le (toNumber (transaction_body.amount b)) (Some 0)"
    by (auto simp: transaction_update_errors_def split: if_splits)
  from assms(3) have nn: "transaction_data.amount (transaction_updateData b) \<noteq> Some None"
    and at: "transaction.amount t =
      or_keep (Option.bind (transaction_data.amount (transaction_updateData b)) id)
        (transaction.amount t0)"
    by (auto simp: apply_transaction_data_def split: if_splits)
  have pos: "0 < transaction.amount t"
    using at am nn assms(1)
    by (cases "transaction_body.amount b" rule: amount_cases)
       (auto simp: transaction_updateData_def truthy_num_def parseFloat_def toNumber_def
          js_le_def or_keep_def transaction_ok_def split: if_splits)
  from assms(3) have "transaction.type' t =
      or_keep (truthy_text (transaction_body.type' b)) (transaction.type' t0)"
    by (auto simp: apply_transaction_data_def transaction_updateData_def split: if_splits)
  with ty assms(1) pos show ?thesis
    by (cases "transaction_body.type' b")
       (auto simp: transaction_ok_def or_keep_def truthy_text_def truthy_str_def text_of_def)
qed

lemma update_transaction_ok:
  assumes "store_ok s"
  shows "store_ok (snd (update_transaction uid i b s))"
proof -
  from update_transaction_store [of uid i b s] show ?thesis
  proof (elim disjE exE conjE)
    assume "snd (update_transaction uid i b s) = s"
    with assms show ?thesis by simp
  next
    fix n t0 t
    assume f: "findUnique_transaction s n = Some t0" and e: "transaction_update_errors b = None"
      and a: "apply_transaction_data (transaction_updateData b) t0 = Some t"
      and r: "snd (update_transaction uid i b s) = replace_transaction t s"
    from assms f have "transaction_ok t0" by (rule store_ok_transaction)
    then have "transaction_ok t" using e a by (rule apply_transaction_data_ok)
    with assms r show ?thesis by (simp add: store_ok_replace_transaction)
  qed
qed

lemma perform_ok: "store_ok s \<Longrightarrow> store_ok (perform s r)"
  by (cases r)
     (simp_all add: create_transaction_ok update_transaction_ok delete_transaction_ok
        create_goal_ok update_goal_ok update_progress_ok delete_goal_ok)

lemma foldl_perform_ok: "store_ok s \<Longrightarrow> store_ok (foldl perform s rs)"
  by (induction rs arbitrary: s) (simp_all add: perform_ok)

lemma run_ok: "store_ok (run rs)"
proof -
  have "store_ok empty_store"
    by (simp add: store_ok_def empty_store_def)
  then show ?thesis
    unfolding run_def by (rule foldl_perform_ok)
qed


text \<open>
  C1, as the code has it. After any history of requests, the progress that the list,
  the single read, the recent list, the update and the progress update attach to a goal
  is the percentage of the current amount in the target as the arithmetic of doubles
  gives it, the quotient and its product with 100 each rounded to a double, then
  rounded to a whole number and clamped to 0 and 100. A goal with target 0, which no
  history stores, would get progress 0.
\<close>

theorem progress_in_doubles:
  "(\<forall>gs s'. list_goals uid q (run rs) = (Inr gs, s') \<longrightarrow>
       (\<forall>gp \<in> set gs. snd gp = double_progress (fst gp)))
   \<and> (\<forall>gs s'. recent_goals uid (run rs) = (Inr gs, s') \<longrightarrow>
       (\<forall>gp \<in> set gs. snd gp = double_progress (fst gp)))
   \<and> (\<forall>g p s'. get_goal uid i (run rs) = (Inr (g, p), s') \<longrightarrow> p = double_progress g)
   \<and> (\<forall>m g p s'. update_goal today uid i b (run rs) = (Inr (m, g, p), s') \<longrightarrow> p = double_progress g)
   \<and> (\<forall>m g p s'. update_progress uid i a (run rs) = (Inr (m, g, p), s') \<longrightarrow> p = double_progress g)
   \<and> (goal.targetAmount g0 = 0 \<longrightarrow> progress g0 = 0)"
proof -
  have ok: "store_ok (run rs)" by (rule run_ok)
  then have all: "\<And>g. g \<in> set (goals (run rs)) \<Longrightarrow> goal_ok g"
    by (simp add: store_ok_def list_all_iff)
  have l: "\<forall>gs s'. list_goals uid q (run rs) = (Inr gs, s') \<longrightarrow>
       (\<forall>gp \<in> set gs. snd gp = double_progress (fst gp))"
    using all by (auto simp: list_goals_def Let_def with_progress_def progress_double)
  have r: "\<forall>gs s'. recent_goals uid (run rs) = (Inr gs, s') \<longrightarrow>
       (\<forall>gp \<in> set gs. snd gp = double_progress (fst gp))"
    using all
    by (auto simp: recent_goals_def Let_def with_progress_def progress_double dest!: in_set_takeD)
  have g: "\<forall>g p s'. get_goal uid i (run rs) = (Inr (g, p), s') \<longrightarrow> p = double_progress g"
    using all
    by (auto simp: get_goal_def progress_double split: option.splits if_splits
        dest!: findUnique_goal_in)
  have u: "\<forall>m g p s'. update_goal today uid i b (run rs) = (Inr (m, g, p), s') \<longrightarrow> p = double_progress g"
  proof (intro allI impI)
    fix m g p s'
    assume a: "update_goal today uid i b (run rs) = (Inr (m, g, p), s')"
    then obtain n g1 where n: "validateIntegerId i = Some n" "findUnique_goal (run rs) n = Some g1"
      by (auto simp: update_goal_def split: option.splits if_splits)
    from ok n(2) have "goal_ok g1" by (rule store_ok_goal)
    moreover from update_goal_Inr [OF a n] have "goal_update_errors today b = None"
      and "apply_goal_data (goal_updateData g1 b) g1 = Some g"
      by simp_all
    ultimately have "goal_ok g" by (rule apply_goal_data_ok)
    moreover from update_goal_Inr [OF a n] have "p = progress g" by simp
    ultimately show "p = double_progress g" by (simp add: progress_double)
  qed
  have up: "\<forall>m g p s'. update_progress uid i a (run rs) = (Inr (m, g, p), s') \<longrightarrow> p = double_progress g"
  proof (intro allI impI)
    fix m g p s'
    assume a: "update_progress uid i a (run rs) = (Inr (m, g, p), s')"
    then obtain n g1 where n: "validateIntegerId i = Some n" "findUnique_goal (run rs) n = Some g1"
      by (auto simp: update_progress_def split: option.splits if_splits)
    from ok n(2) have "goal_ok g1" by (rule store_ok_goal)
    with update_progress_Inr [OF a n] have "goal_ok g" and "p = progress g"
      by (auto simp: goal_ok_def)
    then show "p = double_progress g" by (simp add: progress_double)
  qed
  have z: "goal.targetAmount g0 = 0 \<longrightarrow> progress g0 = 0"
    by (simp add: progress_def)
  from l r g u up z show ?thesis by blast
qed


theorem progress_in_doubles_witness:
  "get_goal 1 ''1'' (run example_requests) = (Inr (example_goal, 25), run example_requests)
   \<and> double_progress example_goal = 25
   \<and> list_goals 1 None (run example_requests) = (Inr [(example_goal, 25)], run example_requests)"
proof -
  have g: "get_goal 1 ''1'' (run example_requests) = (Inr (example_goal, 25), run example_requests)"
    by (simp add: run_example_requests get_goal_def example_defs eval_defs)
  have l: "list_goals 1 None (run example_requests) = (Inr [(example_goal, 25)], run example_requests)"
    by (simp add: run_example_requests list_goals_def with_progress_def example_defs eval_defs)
  from progress_in_doubles [where rs = example_requests and uid = 1 and i = "''1''"
      and q = None and today = "(2026, 10, 2)" and b = example_goal_body and a = "Val (Num 10)"
      and ?g0.0 = example_goal]
  have "\<forall>g p s'. get_goal 1 ''1'' (run example_requests) = (Inr (g, p), s') \<longrightarrow> p = double_progress g"
    by blast
  with g have "double_progress example_goal = 25" by simp
  with g l show ?thesis by simp
qed

theorem progress_in_doubles_counterexample:
  "run [CreateGoal 7 (2026, 10, 2) 1 rounding_goal_body] =
     \<lparr>transactions = [], goals = [rounding_goal], nextTransactionId = 1, nextGoalId = 2\<rparr>
   \<and> goal.currentAmount rounding_goal = 29 \<and> goal.targetAmount rounding_goal = 200
   \<and> get_goal 1 ''1'' (run [CreateGoal 7 (2026, 10, 2) 1 rounding_goal_body]) =
       (Inr (rounding_goal, 14), run [CreateGoal 7 (2026, 10, 2) 1 rounding_goal_body])
   \<and> spec_progress rounding_goal = 15"
  using run_rounding
  by (simp add: get_goal_def spec_progress_def clamp_def round_def example_defs eval_defs)

section \<open>The monthly chart\<close>

lemma findIndex_Some:
  "findIndex P xs = Some i \<Longrightarrow> i < length xs \<and> P (xs ! i)"
  by (induction xs arbitrary: i) (auto split: if_splits)

lemma findIndex_None: "findIndex P xs = None \<longleftrightarrow> (\<forall>x \<in> set xs. \<not> P x)"
  by (induction xs) auto

lemma add_to_month_findIndex:
  "add_to_month ms t =
     (case findIndex (matches t) ms of
        None \<Rightarrow> ms
      | Some i \<Rightarrow> ms[i := (if transaction.type' t = ''income''
             then (ms ! i)\<lparr>bucket.income := fl (bucket.income (ms ! i) + transaction.amount t)\<rparr>
             else (ms ! i)\<lparr>bucket.expenses := fl (bucket.expenses (ms ! i) + transaction.amount t)\<rparr>)])"
proof -
  have "(\<lambda>m. bucket.month m = getMonth (transaction.date t)
             \<and> bucket.year m = getFullYear (transaction.date t)) = matches t"
    by (simp add: matches_def fun_eq_iff)
  then show ?thesis
    by (simp add: add_to_month_def Let_def split: option.splits)
qed

lemma add_to_month_cases:
  "(add_to_month ms t = ms \<and> (\<forall>m \<in> set ms. \<not> matches t m))
   \<or> (\<exists>i. i < length ms \<and> matches t (ms ! i)
        \<and> add_to_month ms t = ms[i := (if transaction.type' t = ''income''
             then (ms ! i)\<lparr>bucket.income := fl (bucket.income (ms ! i) + transaction.amount t)\<rparr>
             else (ms ! i)\<lparr>bucket.expenses := fl (bucket.expenses (ms ! i) + transaction.amount t)\<rparr>)])"
proof (cases "findIndex (matches t) ms")
  case None
  then have "add_to_month ms t = ms"
    by (simp add: add_to_month_findIndex)
  moreover from None have "\<forall>m \<in> set ms. \<not> matches t m"
    by (simp add: findIndex_None)
  ultimately show ?thesis by blast
next
  case (Some i)
  from findIndex_Some [OF Some] have "i < length ms" and "matches t (ms ! i)"
    by simp_all
  moreover from Some have "add_to_month ms t = ms[i := (if transaction.type' t = ''income''
             then (ms ! i)\<lparr>bucket.income := fl (bucket.income (ms ! i) + transaction.amount t)\<rparr>
             else (ms ! i)\<lparr>bucket.expenses := fl (bucket.expenses (ms ! i) + transaction.amount t)\<rparr>)]"
    by (simp add: add_to_month_findIndex)
  ultimately show ?thesis by blast
qed

lemma length_add_to_month: "length (add_to_month ms t) = length ms"
  using add_to_month_cases [of ms t] by auto

lemma add_to_month_month: "map bucket.month (add_to_month ms t) = map bucket.month ms"
  using add_to_month_cases [of ms t]
  by (auto simp: map_update list_update_same_conv)

lemma add_to_month_year: "map bucket.year (add_to_month ms t) = map bucket.year ms"
  using add_to_month_cases [of ms t]
  by (auto simp: map_update list_update_same_conv)

lemma add_to_month_other:
  assumes "k < length ms" and "\<not> matches t (ms ! k)"
  shows "add_to_month ms t ! k = ms ! k"
  using add_to_month_cases [of ms t] assms
  by (auto simp: nth_list_update)

lemma foldl_add_length: "length (foldl add_to_month ms ts) = length ms"
  by (induction ts arbitrary: ms) (simp_all add: length_add_to_month)

lemma foldl_add_month: "map bucket.month (foldl add_to_month ms ts) = map bucket.month ms"
  by (induction ts arbitrary: ms) (simp_all add: add_to_month_month)

lemma foldl_add_year: "map bucket.year (foldl add_to_month ms ts) = map bucket.year ms"
  by (induction ts arbitrary: ms) (simp_all add: add_to_month_year)

lemma nth_month: "k < length ms \<Longrightarrow> bucket.month (add_to_month ms t ! k) = bucket.month (ms ! k)"
  using add_to_month_month [of ms t] length_add_to_month [of ms t]
  by (metis nth_map)

lemma nth_year: "k < length ms \<Longrightarrow> bucket.year (add_to_month ms t ! k) = bucket.year (ms ! k)"
  using add_to_month_year [of ms t] length_add_to_month [of ms t]
  by (metis nth_map)

lemma foldl_add_other:
  assumes "k < length ms" and "\<forall>t \<in> set ts. \<not> matches t (ms ! k)"
  shows "foldl add_to_month ms ts ! k = ms ! k"
  using assms
proof (induction ts arbitrary: ms)
  case Nil
  then show ?case by simp
next
  case (Cons t ts)
  from Cons.prems have k: "k < length (add_to_month ms t)"
    by (simp add: length_add_to_month)
  from Cons.prems have same: "add_to_month ms t ! k = ms ! k"
    by (simp add: add_to_month_other)
  with Cons.prems have "\<forall>t' \<in> set ts. \<not> matches t' (add_to_month ms t ! k)"
    by simp
  with Cons.IH [OF k] same show ?case by simp
qed

lemma add_to_month_matches:
  "(\<exists>m \<in> set (add_to_month ms t). matches t' m) = (\<exists>m \<in> set ms. matches t' m)"
proof -
  have "(\<exists>m \<in> set (add_to_month ms t). matches t' m)
      = (\<exists>k < length ms. matches t' (add_to_month ms t ! k))"
    by (metis in_set_conv_nth length_add_to_month)
  also have "\<dots> = (\<exists>k < length ms. matches t' (ms ! k))"
    by (auto simp: matches_def nth_month nth_year)
  also have "\<dots> = (\<exists>m \<in> set ms. matches t' m)"
    by (metis in_set_conv_nth)
  finally show ?thesis .
qed

subsection \<open>Sums of whole amounts\<close>

lemma whole_Ints: "whole r = (r \<in> \<int>)"
  by (auto simp: whole_def Ints_def)

lemma fl_add_whole:
  assumes "whole r" and "whole a" and "0 \<le> r" and "0 \<le> a" and "r + a \<le> 2 ^ 53"
  shows "fl (r + a) = r + a"
proof -
  from assms(1,2) have "whole (r + a)" by (simp add: whole_Ints)
  then have w: "of_int \<lfloor>r + a\<rfloor> = r + a" by (simp only: whole_def)
  from assms(3-5) have "\<bar>r + a\<bar> \<le> 2 ^ 53" by simp
  with w show ?thesis by (rule fl_whole)
qed

lemma nth_le_sum_list:
  "\<forall>x \<in> set xs. 0 \<le> x \<Longrightarrow> i < length xs \<Longrightarrow> xs ! i \<le> (sum_list xs :: rat)"
proof (induction xs arbitrary: i)
  case Nil
  then show ?case by simp
next
  case (Cons x xs)
  from Cons.prems have "0 \<le> x" and "0 \<le> sum_list xs"
    by (simp_all add: sum_list_nonneg)
  with Cons show ?case
    by (cases i) (auto intro: add_increasing add_increasing2)
qed

lemma sum_list_map_nonneg:
  "\<forall>x \<in> set xs. 0 \<le> f x \<Longrightarrow> 0 \<le> (sum_list (map f xs) :: rat)"
  by (induction xs) simp_all

lemma whole_buckets_nth:
  assumes "whole_buckets ms" and "i < length ms"
  shows "0 \<le> bucket.income (ms ! i) \<and> whole (bucket.income (ms ! i))
    \<and> 0 \<le> bucket.expenses (ms ! i) \<and> whole (bucket.expenses (ms ! i))
    \<and> bucket.income (ms ! i) \<le> bucket_total ms \<and> bucket.expenses (ms ! i) \<le> bucket_total ms"
proof -
  from assms(1) have all: "\<forall>m \<in> set ms. 0 \<le> bucket.income m \<and> whole (bucket.income m)
      \<and> 0 \<le> bucket.expenses m \<and> whole (bucket.expenses m)"
    by (simp add: whole_buckets_def list_all_iff)
  with assms(2) have here: "0 \<le> bucket.income (ms ! i) \<and> whole (bucket.income (ms ! i))
      \<and> 0 \<le> bucket.expenses (ms ! i) \<and> whole (bucket.expenses (ms ! i))"
    by simp
  from all have pi: "\<forall>x \<in> set (map bucket.income ms). 0 \<le> x"
    and pe: "\<forall>x \<in> set (map bucket.expenses ms). 0 \<le> x"
    by auto
  from all have si: "0 \<le> sum_list (map bucket.income ms)"
    and se: "0 \<le> sum_list (map bucket.expenses ms)"
    by (simp_all add: sum_list_map_nonneg)
  from nth_le_sum_list [OF pi, of i] assms(2)
  have "bucket.income (ms ! i) \<le> sum_list (map bucket.income ms)" by simp
  moreover from nth_le_sum_list [OF pe, of i] assms(2)
  have "bucket.expenses (ms ! i) \<le> sum_list (map bucket.expenses ms)" by simp
  ultimately show ?thesis
    using here si se by (simp add: bucket_total_def)
qed

lemma add_to_month_exact:
  assumes "whole_buckets ms" and "whole (transaction.amount t)" and "0 \<le> transaction.amount t"
    and "bucket_total ms + transaction.amount t \<le> 2 ^ 53"
  shows "(add_to_month ms t = ms \<and> (\<forall>m \<in> set ms. \<not> matches t m))
   \<or> (\<exists>i. i < length ms \<and> matches t (ms ! i)
        \<and> add_to_month ms t = ms[i := (if transaction.type' t = ''income''
             then (ms ! i)\<lparr>bucket.income := bucket.income (ms ! i) + transaction.amount t\<rparr>
             else (ms ! i)\<lparr>bucket.expenses := bucket.expenses (ms ! i) + transaction.amount t\<rparr>)])"
proof -
  from add_to_month_cases [of ms t] show ?thesis
  proof (elim disjE exE conjE)
    assume "add_to_month ms t = ms" and "\<forall>m \<in> set ms. \<not> matches t m"
    then show ?thesis by blast
  next
    fix i
    assume i: "i < length ms" and m: "matches t (ms ! i)"
      and a: "add_to_month ms t = ms[i := (if transaction.type' t = ''income''
             then (ms ! i)\<lparr>bucket.income := fl (bucket.income (ms ! i) + transaction.amount t)\<rparr>
             else (ms ! i)\<lparr>bucket.expenses := fl (bucket.expenses (ms ! i) + transaction.amount t)\<rparr>)]"
    from whole_buckets_nth [OF assms(1) i] assms(3,4)
    have bi: "bucket.income (ms ! i) + transaction.amount t \<le> 2 ^ 53"
      and be: "bucket.expenses (ms ! i) + transaction.amount t \<le> 2 ^ 53"
      by simp_all
    from whole_buckets_nth [OF assms(1) i] assms(2,3) bi
    have ei: "fl (bucket.income (ms ! i) + transaction.amount t)
        = bucket.income (ms ! i) + transaction.amount t"
      by (simp add: fl_add_whole)
    from whole_buckets_nth [OF assms(1) i] assms(2,3) be
    have ee: "fl (bucket.expenses (ms ! i) + transaction.amount t)
        = bucket.expenses (ms ! i) + transaction.amount t"
      by (simp add: fl_add_whole)
    from i m a show ?thesis
      unfolding ei ee by blast
  qed
qed

lemma sum_list_map_update:
  "i < length xs \<Longrightarrow>
   sum_list (map f (xs[i := x])) = sum_list (map f xs) - f (xs ! i) + (f x :: rat)"
  by (induction xs arbitrary: i) (auto split: nat.splits)

lemma add_to_month_income:
  assumes "whole_buckets ms" and "whole (transaction.amount t)" and "0 \<le> transaction.amount t"
    and "bucket_total ms + transaction.amount t \<le> 2 ^ 53"
  shows "sum_list (map bucket.income (add_to_month ms t)) =
     sum_list (map bucket.income ms)
     + (if transaction.type' t = ''income'' \<and> (\<exists>m \<in> set ms. matches t m)
        then transaction.amount t else 0)"
  using add_to_month_exact [OF assms]
  by (auto simp: sum_list_map_update)

lemma add_to_month_expenses:
  assumes "whole_buckets ms" and "whole (transaction.amount t)" and "0 \<le> transaction.amount t"
    and "bucket_total ms + transaction.amount t \<le> 2 ^ 53"
  shows "sum_list (map bucket.expenses (add_to_month ms t)) =
     sum_list (map bucket.expenses ms)
     + (if transaction.type' t \<noteq> ''income'' \<and> (\<exists>m \<in> set ms. matches t m)
        then transaction.amount t else 0)"
  using add_to_month_exact [OF assms]
  by (auto simp: sum_list_map_update)

lemma add_to_month_whole:
  assumes "whole_buckets ms" and "whole (transaction.amount t)" and "0 \<le> transaction.amount t"
    and "bucket_total ms + transaction.amount t \<le> 2 ^ 53"
  shows "whole_buckets (add_to_month ms t)"
proof -
  from add_to_month_exact [OF assms] show ?thesis
  proof (elim disjE exE conjE)
    assume "add_to_month ms t = ms"
    with assms(1) show ?thesis by simp
  next
    fix i
    assume i: "i < length ms"
      and a: "add_to_month ms t = ms[i := (if transaction.type' t = ''income''
             then (ms ! i)\<lparr>bucket.income := bucket.income (ms ! i) + transaction.amount t\<rparr>
             else (ms ! i)\<lparr>bucket.expenses := bucket.expenses (ms ! i) + transaction.amount t\<rparr>)]"
    let ?b = "if transaction.type' t = ''income''
             then (ms ! i)\<lparr>bucket.income := bucket.income (ms ! i) + transaction.amount t\<rparr>
             else (ms ! i)\<lparr>bucket.expenses := bucket.expenses (ms ! i) + transaction.amount t\<rparr>"
    from whole_buckets_nth [OF assms(1) i] assms(2,3)
    have new: "0 \<le> bucket.income ?b \<and> whole (bucket.income ?b)
        \<and> 0 \<le> bucket.expenses ?b \<and> whole (bucket.expenses ?b)"
      by (simp add: whole_Ints)
    have "set (ms[i := ?b]) \<subseteq> insert ?b (set ms)"
      by (rule set_update_subset_insert)
    with new assms(1) have "whole_buckets (ms[i := ?b])"
      unfolding whole_buckets_def list_all_iff by blast
    with a show ?thesis by simp
  qed
qed

lemma add_to_month_total:
  assumes "whole_buckets ms" and "whole (transaction.amount t)" and "0 \<le> transaction.amount t"
    and "bucket_total ms + transaction.amount t \<le> 2 ^ 53"
  shows "bucket_total (add_to_month ms t) \<le> bucket_total ms + transaction.amount t"
  using assms(3)
  by (simp add: bucket_total_def add_to_month_income [OF assms] add_to_month_expenses [OF assms])

lemma foldl_add_sums:
  assumes "whole_buckets ms"
    and "\<forall>t \<in> set ts. whole (transaction.amount t) \<and> 0 \<le> transaction.amount t"
    and "bucket_total ms + sum_list (map transaction.amount ts) \<le> 2 ^ 53"
  shows "sum_list (map bucket.income (foldl add_to_month ms ts)) =
       sum_list (map bucket.income ms)
       + sum_list (map (\<lambda>t. if transaction.type' t = ''income'' \<and> (\<exists>m \<in> set ms. matches t m)
                            then transaction.amount t else 0) ts)
    \<and> sum_list (map bucket.expenses (foldl add_to_month ms ts)) =
       sum_list (map bucket.expenses ms)
       + sum_list (map (\<lambda>t. if transaction.type' t \<noteq> ''income'' \<and> (\<exists>m \<in> set ms. matches t m)
                            then transaction.amount t else 0) ts)"
  using assms
proof (induction ts arbitrary: ms)
  case Nil
  then show ?case by simp
next
  case (Cons t ts)
  from Cons.prems(2) have w: "whole (transaction.amount t)" and p: "0 \<le> transaction.amount t"
    and rest: "\<forall>t \<in> set ts. whole (transaction.amount t) \<and> 0 \<le> transaction.amount t"
    by simp_all
  from rest have "0 \<le> sum_list (map transaction.amount ts)"
    by (simp add: sum_list_map_nonneg)
  with Cons.prems(3) have b: "bucket_total ms + transaction.amount t \<le> 2 ^ 53"
    by simp
  note step = Cons.prems(1) w p b
  have wb: "whole_buckets (add_to_month ms t)"
    using step by (rule add_to_month_whole)
  from add_to_month_total [OF step] Cons.prems(3)
  have bound: "bucket_total (add_to_month ms t) + sum_list (map transaction.amount ts) \<le> 2 ^ 53"
    by simp
  from Cons.IH [OF wb rest bound] show ?case
    by (simp add: add_to_month_matches add_to_month_income [OF step]
        add_to_month_expenses [OF step])
qed

lemma foldl_fl_plus:
  assumes "whole a" and "0 \<le> a" and "\<forall>t \<in> set ts. whole (f t) \<and> 0 \<le> f t"
    and "a + sum_list (map f ts) \<le> 2 ^ 53"
  shows "foldl (\<lambda>sum t. fl (sum + f t)) a ts = a + sum_list (map f ts)"
  using assms
proof (induction ts arbitrary: a)
  case Nil
  then show ?case by simp
next
  case (Cons t ts)
  from Cons.prems(3) have w: "whole (f t)" and p: "0 \<le> f t"
    and rest: "\<forall>t \<in> set ts. whole (f t) \<and> 0 \<le> f t"
    by simp_all
  from rest have "0 \<le> sum_list (map f ts)"
    by (simp add: sum_list_map_nonneg)
  with Cons.prems(4) have "a + f t \<le> 2 ^ 53" by simp
  with Cons.prems(1,2) w p have e: "fl (a + f t) = a + f t"
    by (simp add: fl_add_whole)
  from Cons.prems(1) w have w': "whole (a + f t)" by (simp add: whole_Ints)
  from Cons.prems(2) p have p': "0 \<le> a + f t" by simp
  from Cons.prems(4) have "a + f t + sum_list (map f ts) \<le> 2 ^ 53" by (simp add: add.assoc)
  from Cons.IH [OF w' p' rest this] show ?case
    by (simp add: e add.assoc)
qed

lemma sum_list_filter_le:
  "\<forall>x \<in> set xs. 0 \<le> f x \<Longrightarrow>
   sum_list (map f (filter P xs)) \<le> (sum_list (map f xs) :: rat)"
  by (induction xs) (auto intro: add_increasing)

lemma whole_sum_list: "\<forall>x \<in> set xs. whole (f x) \<Longrightarrow> whole (sum_list (map f xs))"
  by (induction xs) (simp_all add: whole_Ints)

lemma sum_list_insort_key:
  "sum_list (map f (insort_key k x xs)) = (f x :: rat) + sum_list (map f xs)"
  by (induction xs) auto

lemma sum_list_sort_key: "sum_list (map f (sort_key k xs)) = (sum_list (map f xs) :: rat)"
  by (induction xs) (simp_all add: sum_list_insort_key)

lemma countdown_nth: "k < 6 \<Longrightarrow> [5, 4, 3, 2, 1, 0 :: int] ! k = 5 - int k"
proof -
  assume "k < 6"
  then have "k = 0 \<or> k = 1 \<or> k = 2 \<or> k = 3 \<or> k = 4 \<or> k = 5" by arith
  then show ?thesis by auto
qed

lemma chart_months_length: "length (chart_months now) = 6"
  by (simp add: chart_months_def)

lemma chart_months_nth:
  assumes "k < 6" and "\<not> (0 \<le> getFullYear now \<and> getFullYear now \<le> 99)"
  shows "chart_months now ! k =
     \<lparr>month = (getMonth now - (5 - int k)) mod 12,
      year = getFullYear now + (getMonth now - (5 - int k)) div 12,
      income = 0, expenses = 0\<rparr>"
proof -
  from assms(1) have "chart_months now ! k =
      (let date' = new_Date (getFullYear now) (getMonth now - ([5, 4, 3, 2, 1, 0] ! k)) 1
       in \<lparr>month = getMonth date', year = getFullYear date', income = 0, expenses = 0\<rparr>)"
    unfolding chart_months_def by (subst nth_map) simp_all
  with assms show ?thesis
    by (simp add: countdown_nth new_Date_def Let_def getMonth_def getFullYear_def)
qed

lemma chart_months_number:
  assumes "k < 6" and "\<not> (0 \<le> getFullYear now \<and> getFullYear now \<le> 99)"
  shows "month_number (bucket.year (chart_months now ! k)) (bucket.month (chart_months now ! k))
      = month_number (getFullYear now) (getMonth now) - 5 + int k
    \<and> 0 \<le> bucket.month (chart_months now ! k) \<and> bucket.month (chart_months now ! k) < 12"
  by (simp add: chart_months_nth [OF assms] month_number_def)


lemma monthlyChart_length: "length (monthlyChart now uid s) = 6"
  by (simp add: monthlyChart_def Let_def foldl_add_length chart_months_length)

lemma monthlyChart_nth_keys:
  assumes "k < 6"
  shows "bucket.month (monthlyChart now uid s ! k) = bucket.month (chart_months now ! k)
    \<and> bucket.year (monthlyChart now uid s ! k) = bucket.year (chart_months now ! k)"
proof -
  define ts where "ts = sort_key transaction.date
      (filter (\<lambda>t. transaction.userId t = uid
          \<and> transaction.date t \<ge> new_Date (getFullYear now) (getMonth now - 5) 1) (transactions s))"
  have mc: "monthlyChart now uid s = foldl add_to_month (chart_months now) ts"
    by (simp add: monthlyChart_def Let_def ts_def)
  from assms have k: "k < length (chart_months now)"
      "k < length (foldl add_to_month (chart_months now) ts)"
    by (simp_all add: chart_months_length foldl_add_length)
  have "bucket.month (foldl add_to_month (chart_months now) ts ! k)
      = map bucket.month (foldl add_to_month (chart_months now) ts) ! k"
    using k(2) by simp
  also have "\<dots> = bucket.month (chart_months now ! k)"
    using k(1) by (simp add: foldl_add_month)
  finally have m: "bucket.month (monthlyChart now uid s ! k) = bucket.month (chart_months now ! k)"
    by (simp add: mc)
  have "bucket.year (foldl add_to_month (chart_months now) ts ! k)
      = map bucket.year (foldl add_to_month (chart_months now) ts) ! k"
    using k(2) by simp
  also have "\<dots> = bucket.year (chart_months now ! k)"
    using k(1) by (simp add: foldl_add_year)
  finally have "bucket.year (monthlyChart now uid s ! k) = bucket.year (chart_months now ! k)"
    by (simp add: mc)
  with m show ?thesis by simp
qed

lemma monthlyChart_empty_bucket:
  assumes "k < 6"
    and "\<forall>t \<in> set (transactions s). transaction.userId t = uid \<longrightarrow> \<not> matches t (monthlyChart now uid s ! k)"
  shows "bucket.income (monthlyChart now uid s ! k) = 0
    \<and> bucket.expenses (monthlyChart now uid s ! k) = 0"
proof -
  define ts where "ts = sort_key transaction.date
      (filter (\<lambda>t. transaction.userId t = uid
          \<and> transaction.date t \<ge> new_Date (getFullYear now) (getMonth now - 5) 1) (transactions s))"
  have mc: "monthlyChart now uid s = foldl add_to_month (chart_months now) ts"
    by (simp add: monthlyChart_def Let_def ts_def)
  from assms(1) have k: "k < length (chart_months now)"
    by (simp add: chart_months_length)
  have "\<forall>t \<in> set ts. \<not> matches t (chart_months now ! k)"
    using assms(2) monthlyChart_nth_keys [OF assms(1), of now uid s]
    by (auto simp: ts_def matches_def)
  with k have "foldl add_to_month (chart_months now) ts ! k = chart_months now ! k"
    by (rule foldl_add_other)
  moreover have "\<forall>b \<in> set (chart_months now). bucket.income b = 0 \<and> bucket.expenses b = 0"
    by (simp add: chart_months_def Let_def)
  with k have "bucket.income (chart_months now ! k) = 0
      \<and> bucket.expenses (chart_months now ! k) = 0"
    by (meson nth_mem)
  ultimately show ?thesis by (simp add: mc)
qed

text \<open>
  C7. At a current date with a month index from 0 to 11 and a year that is not one of
  0 to 99 (which \<^verbatim>\<open>new Date\<close> reads as 1900 to 1999), the chart of any user over any
  tables has six buckets; the bucket at index \<open>k\<close> is the calendar month \<open>5 - k\<close>
  months before the current one, counted across year boundaries, so the last bucket is
  the current month and the buckets ascend by year and month; a bucket that none of the
  user's transactions falls in is present with income 0 and expenses 0.
\<close>

theorem monthlyChart_buckets:
  assumes "0 \<le> getMonth now" and "getMonth now < 12"
    and "\<not> (0 \<le> getFullYear now \<and> getFullYear now \<le> 99)"
  shows "length (monthlyChart now uid s) = 6
    \<and> (\<forall>k<6. month_number (bucket.year (monthlyChart now uid s ! k))
                  (bucket.month (monthlyChart now uid s ! k))
              = month_number (getFullYear now) (getMonth now) - 5 + int k
            \<and> 0 \<le> bucket.month (monthlyChart now uid s ! k)
            \<and> bucket.month (monthlyChart now uid s ! k) < 12)
    \<and> bucket.year (monthlyChart now uid s ! 5) = getFullYear now
    \<and> bucket.month (monthlyChart now uid s ! 5) = getMonth now
    \<and> sorted_wrt (\<lambda>a b. (bucket.year a, bucket.month a) < (bucket.year b, bucket.month b))
         (monthlyChart now uid s)
    \<and> (\<forall>k<6. (\<forall>t \<in> set (transactions s). transaction.userId t = uid
                  \<longrightarrow> \<not> matches t (monthlyChart now uid s ! k))
            \<longrightarrow> bucket.income (monthlyChart now uid s ! k) = 0
              \<and> bucket.expenses (monthlyChart now uid s ! k) = 0)"
proof -
  let ?mc = "monthlyChart now uid s"
  have len: "length ?mc = 6" by (rule monthlyChart_length)
  have num: "\<forall>k<6. month_number (bucket.year (?mc ! k)) (bucket.month (?mc ! k))
              = month_number (getFullYear now) (getMonth now) - 5 + int k
            \<and> 0 \<le> bucket.month (?mc ! k) \<and> bucket.month (?mc ! k) < 12"
    using chart_months_number [OF _ assms(3)] monthlyChart_nth_keys [of _ now uid s]
    by simp
  then have "month_number (bucket.year (?mc ! 5)) (bucket.month (?mc ! 5))
      = month_number (getFullYear now) (getMonth now)"
    and "0 \<le> bucket.month (?mc ! 5)" and "bucket.month (?mc ! 5) < 12"
    by simp_all
  with assms(1,2) have last: "bucket.year (?mc ! 5) = getFullYear now"
      "bucket.month (?mc ! 5) = getMonth now"
    unfolding month_number_def by presburger+
  have ord: "sorted_wrt (\<lambda>a b. (bucket.year a, bucket.month a) < (bucket.year b, bucket.month b)) ?mc"
    unfolding sorted_wrt_iff_nth_less
  proof (intro allI impI)
    fix i j
    assume ij: "i < j" and j: "j < length ?mc"
    with len have "i < 6" and "j < 6" by simp_all
    with num have "month_number (bucket.year (?mc ! i)) (bucket.month (?mc ! i))
          = month_number (getFullYear now) (getMonth now) - 5 + int i"
      and "month_number (bucket.year (?mc ! j)) (bucket.month (?mc ! j))
          = month_number (getFullYear now) (getMonth now) - 5 + int j"
      and "0 \<le> bucket.month (?mc ! i)" and "bucket.month (?mc ! i) < 12"
      and "0 \<le> bucket.month (?mc ! j)" and "bucket.month (?mc ! j) < 12"
      by simp_all
    with ij show "(bucket.year (?mc ! i), bucket.month (?mc ! i))
        < (bucket.year (?mc ! j), bucket.month (?mc ! j))"
      by (simp add: month_number_def) arith
  qed
  have empty: "\<forall>k<6. (\<forall>t \<in> set (transactions s). transaction.userId t = uid
                  \<longrightarrow> \<not> matches t (?mc ! k))
            \<longrightarrow> bucket.income (?mc ! k) = 0 \<and> bucket.expenses (?mc ! k) = 0"
    using monthlyChart_empty_bucket [of _ s uid now] by blast
  from len num last ord empty show ?thesis by blast
qed


theorem monthlyChart_buckets_witness:
  "0 \<le> getMonth (2026, 1, 15) \<and> getMonth (2026, 1, 15) < 12
   \<and> \<not> (0 \<le> getFullYear (2026, 1, 15) \<and> getFullYear (2026, 1, 15) \<le> 99)
   \<and> monthlyChart (2026, 1, 15) 1 example_store =
     [\<lparr>month = 8, year = 2025, income = 0, expenses = 0\<rparr>,
      \<lparr>month = 9, year = 2025, income = 0, expenses = 0\<rparr>,
      \<lparr>month = 10, year = 2025, income = 0, expenses = 0\<rparr>,
      \<lparr>month = 11, year = 2025, income = 0, expenses = 0\<rparr>,
      \<lparr>month = 0, year = 2026, income = 0, expenses = 0\<rparr>,
      \<lparr>month = 1, year = 2026, income = 0, expenses = 0\<rparr>]
   \<and> length (monthlyChart (2026, 1, 15) 1 example_store) = 6
   \<and> monthlyChart (2026, 10, 2) 1 example_store =
     [\<lparr>month = 5, year = 2026, income = 0, expenses = 0\<rparr>,
      \<lparr>month = 6, year = 2026, income = 0, expenses = 0\<rparr>,
      \<lparr>month = 7, year = 2026, income = 0, expenses = 0\<rparr>,
      \<lparr>month = 8, year = 2026, income = 0, expenses = 0\<rparr>,
      \<lparr>month = 9, year = 2026, income = 0, expenses = 0\<rparr>,
      \<lparr>month = 10, year = 2026, income = 100, expenses = 0\<rparr>]"
proof -
  have h: "0 \<le> getMonth (2026, 1, 15)" "getMonth (2026, 1, 15) < 12"
      "\<not> (0 \<le> getFullYear (2026, 1, 15) \<and> getFullYear (2026, 1, 15) \<le> 99)"
    by (simp_all add: getMonth_def getFullYear_def)
  have e: "monthlyChart (2026, 1, 15) 1 example_store =
     [\<lparr>month = 8, year = 2025, income = 0, expenses = 0\<rparr>,
      \<lparr>month = 9, year = 2025, income = 0, expenses = 0\<rparr>,
      \<lparr>month = 10, year = 2025, income = 0, expenses = 0\<rparr>,
      \<lparr>month = 11, year = 2025, income = 0, expenses = 0\<rparr>,
      \<lparr>month = 0, year = 2026, income = 0, expenses = 0\<rparr>,
      \<lparr>month = 1, year = 2026, income = 0, expenses = 0\<rparr>]"
    by (simp add: monthlyChart_def chart_months_def add_to_month_def new_Date_def
        getMonth_def getFullYear_def example_defs Let_def)
  have e': "monthlyChart (2026, 10, 2) 1 example_store =
     [\<lparr>month = 5, year = 2026, income = 0, expenses = 0\<rparr>,
      \<lparr>month = 6, year = 2026, income = 0, expenses = 0\<rparr>,
      \<lparr>month = 7, year = 2026, income = 0, expenses = 0\<rparr>,
      \<lparr>month = 8, year = 2026, income = 0, expenses = 0\<rparr>,
      \<lparr>month = 9, year = 2026, income = 0, expenses = 0\<rparr>,
      \<lparr>month = 10, year = 2026, income = 100, expenses = 0\<rparr>]"
    by (simp add: monthlyChart_def chart_months_def add_to_month_def new_Date_def
        getMonth_def getFullYear_def example_defs fl_eval)
  from monthlyChart_buckets [OF h, of 1 example_store]
  have "length (monthlyChart (2026, 1, 15) 1 example_store) = 6" by simp
  with h e e' show ?thesis by simp
qed


lemma in_window_after_start:
  assumes "in_window now d" and "\<not> (0 \<le> getFullYear now \<and> getFullYear now \<le> 99)"
  shows "new_Date (getFullYear now) (getMonth now - 5) 1 \<le> d"
proof -
  obtain yd md dd where d: "d = (yd, md, dd)" by (cases d)
  define q where "q = (getMonth now - 5) div 12"
  define r where "r = (getMonth now - 5) mod 12"
  have qr: "getMonth now - 5 = 12 * q + r" "0 \<le> r" "r < 12"
    by (simp_all add: q_def r_def)
  from assms(1) d have w: "0 \<le> md" "md < 12" "1 \<le> dd"
      "12 * getFullYear now + getMonth now - 5 \<le> 12 * yd + md"
    by (simp_all add: in_window_def month_number_def getMonth_def getFullYear_def)
  from assms(2) have "new_Date (getFullYear now) (getMonth now - 5) 1
      = (getFullYear now + q, r, 1)"
    by (simp add: new_Date_def q_def r_def)
  moreover from qr w have "getFullYear now + q < yd
      \<or> (getFullYear now + q = yd \<and> (r < md \<or> (r = md \<and> 1 \<le> dd)))"
    by arith
  ultimately show ?thesis
    using d by auto
qed

lemma in_window_has_bucket:
  assumes "in_window now (transaction.date t)"
    and "\<not> (0 \<le> getFullYear now \<and> getFullYear now \<le> 99)"
  shows "\<exists>m \<in> set (chart_months now). matches t m"
proof -
  define yd where "yd = getFullYear (transaction.date t)"
  define md where "md = getMonth (transaction.date t)"
  define N where "N = 12 * getFullYear now + getMonth now"
  from assms(1) have w: "0 \<le> md" "md < 12" "N - 5 \<le> 12 * yd + md" "12 * yd + md \<le> N"
    by (simp_all add: in_window_def month_number_def yd_def md_def N_def)
  define k where "k = nat (12 * yd + md - (N - 5))"
  from w have k: "k < 6" and ik: "int k = 12 * yd + md - (N - 5)"
    by (simp_all add: k_def)
  define c where "c = yd - getFullYear now"
  from ik have "getMonth now - (5 - int k) = 12 * c + md"
    by (simp add: N_def c_def)
  with w have "(getMonth now - (5 - int k)) mod 12 = md"
    and "(getMonth now - (5 - int k)) div 12 = c"
    by simp_all
  then have "(getMonth now - (5 - int k)) mod 12 = md"
    and "getFullYear now + (getMonth now - (5 - int k)) div 12 = yd"
    by (simp_all add: c_def)
  with chart_months_nth [OF k assms(2)] have "matches t (chart_months now ! k)"
    by (simp add: matches_def yd_def md_def)
  moreover from k have "chart_months now ! k \<in> set (chart_months now)"
    by (simp add: chart_months_length)
  ultimately show ?thesis by blast
qed

lemma sum_if_filter:
  "sum_list (map (\<lambda>t. if P t then f t else 0) xs) = (sum_list (map f (filter P xs)) :: rat)"
  by (induction xs) simp_all

lemma chart_months_sums:
  "sum_list (map bucket.income (chart_months now)) = 0
   \<and> sum_list (map bucket.expenses (chart_months now)) = 0
   \<and> bucket_total (chart_months now) = 0 \<and> whole_buckets (chart_months now)"
  by (simp add: chart_months_def Let_def bucket_total_def whole_buckets_def whole_def)

text \<open>
  C8, as the code has it. The summary and the chart add the amounts in doubles, each
  sum rounded and in a different order, so their totals can differ in the last digits.
  After any history of requests, at a current date whose year is not one of 0 to 99:
  when every transaction of the user lies in the chart's window and has an amount that
  is a whole number, and these amounts add up to at most 2^53, every sum is exact: the
  incomes of the six buckets add up to the income of the summary and the expenses of
  the buckets to its expenses, where the summary's income and expenses are the sums of
  the amounts of the user's income and expense transactions and its balance is their
  difference.
\<close>

theorem chart_totals_match_summary:
  assumes "\<not> (0 \<le> getFullYear now \<and> getFullYear now \<le> 99)"
    and "\<forall>t \<in> set (transactions (run rs)). transaction.userId t = uid
           \<longrightarrow> in_window now (transaction.date t) \<and> whole (transaction.amount t)"
    and "sum_list (map transaction.amount
           (filter (\<lambda>t. transaction.userId t = uid) (transactions (run rs)))) \<le> 2 ^ 53"
  shows "sum_list (map bucket.income (monthlyChart now uid (run rs)))
        = stats.income (summary uid (run rs))
    \<and> sum_list (map bucket.expenses (monthlyChart now uid (run rs)))
        = stats.expenses (summary uid (run rs))
    \<and> stats.income (summary uid (run rs))
        = sum_list (map transaction.amount
            (filter (\<lambda>t. transaction.userId t = uid \<and> transaction.type' t = ''income'')
               (transactions (run rs))))
    \<and> stats.expenses (summary uid (run rs))
        = sum_list (map transaction.amount
            (filter (\<lambda>t. transaction.userId t = uid \<and> transaction.type' t = ''expense'')
               (transactions (run rs))))
    \<and> stats.balance (summary uid (run rs))
        = stats.income (summary uid (run rs)) - stats.expenses (summary uid (run rs))"
proof -
  let ?s = "run rs"
  let ?user = "filter (\<lambda>t. transaction.userId t = uid) (transactions ?s)"
  let ?start = "new_Date (getFullYear now) (getMonth now - 5) 1"
  let ?inc = "sum_list (map transaction.amount (filter (\<lambda>t. transaction.type' t = ''income'') ?user))"
  let ?exp = "sum_list (map transaction.amount (filter (\<lambda>t. transaction.type' t = ''expense'') ?user))"
  have "store_ok ?s" by (rule run_ok)
  then have kinds: "\<And>t. t \<in> set (transactions ?s) \<Longrightarrow> transaction_ok t"
    by (simp add: store_ok_def list_all_iff)
  have wh: "\<forall>t \<in> set ?user. whole (transaction.amount t) \<and> 0 \<le> transaction.amount t"
    using assms(2) kinds by (auto simp: transaction_ok_def less_imp_le)
  then have pos: "\<forall>t \<in> set ?user. 0 \<le> transaction.amount t"
    by simp
  have sel: "filter (\<lambda>t. transaction.userId t = uid \<and> transaction.date t \<ge> ?start)
      (transactions ?s) = ?user"
    using assms(1,2) by (auto intro!: filter_cong dest: in_window_after_start)
  have mc: "monthlyChart now uid ?s
      = foldl add_to_month (chart_months now) (sort_key transaction.date ?user)"
    by (simp add: monthlyChart_def Let_def sel)
  have bi: "?inc \<le> 2 ^ 53"
    using sum_list_filter_le [OF pos, of "\<lambda>t. transaction.type' t = ''income''"] assms(3)
    by simp
  have be: "?exp \<le> 2 ^ 53"
    using sum_list_filter_le [OF pos, of "\<lambda>t. transaction.type' t = ''expense''"] assms(3)
    by simp
  have "foldl (\<lambda>sum t. fl (sum + transaction.amount t)) 0
          (filter (\<lambda>t. transaction.type' t = ''income'') ?user) = 0 + ?inc"
    using wh bi by (intro foldl_fl_plus) (simp_all add: whole_def)
  then have si: "stats.income (summary uid ?s) = ?inc"
    by (simp add: summary_def Let_def)
  have "foldl (\<lambda>sum t. fl (sum + transaction.amount t)) 0
          (filter (\<lambda>t. transaction.type' t = ''expense'') ?user) = 0 + ?exp"
    using wh be by (intro foldl_fl_plus) (simp_all add: whole_def)
  then have se: "stats.expenses (summary uid ?s) = ?exp"
    by (simp add: summary_def Let_def)
  have inc: "stats.income (summary uid ?s)
      = sum_list (map transaction.amount
          (filter (\<lambda>t. transaction.userId t = uid \<and> transaction.type' t = ''income'')
             (transactions ?s)))"
    by (simp add: si conj_commute)
  have exp: "stats.expenses (summary uid ?s)
      = sum_list (map transaction.amount
          (filter (\<lambda>t. transaction.userId t = uid \<and> transaction.type' t = ''expense'')
             (transactions ?s)))"
    by (simp add: se conj_commute)
  have "whole ?inc" and "whole ?exp"
    using wh by (simp_all add: whole_sum_list)
  then have "whole (?inc - ?exp)"
    by (simp add: whole_Ints)
  then have w: "of_int \<lfloor>?inc - ?exp\<rfloor> = ?inc - ?exp"
    by (simp only: whole_def)
  have "0 \<le> ?inc" and "0 \<le> ?exp"
    using pos by (simp_all add: sum_list_map_nonneg)
  with bi be have "\<bar>?inc - ?exp\<bar> \<le> 2 ^ 53"
    by simp
  with w have "fl (?inc - ?exp) = ?inc - ?exp"
    by (rule fl_whole)
  moreover have "stats.balance (summary uid ?s)
      = fl (stats.income (summary uid ?s) - stats.expenses (summary uid ?s))"
    by (simp add: summary_def Let_def)
  ultimately have bal: "stats.balance (summary uid ?s)
      = stats.income (summary uid ?s) - stats.expenses (summary uid ?s)"
    by (simp add: si se)
  have wh': "\<forall>t \<in> set (sort_key transaction.date ?user).
      whole (transaction.amount t) \<and> 0 \<le> transaction.amount t"
    using wh by simp
  have bound: "bucket_total (chart_months now)
      + sum_list (map transaction.amount (sort_key transaction.date ?user)) \<le> 2 ^ 53"
    using assms(3) by (simp add: chart_months_sums sum_list_sort_key)
  have wb: "whole_buckets (chart_months now)"
    by (simp add: chart_months_sums)
  note sums = foldl_add_sums [OF wb wh' bound]
  have "sum_list (map bucket.income (monthlyChart now uid ?s))
      = sum_list (map (\<lambda>t. if transaction.type' t = ''income''
                               \<and> (\<exists>m \<in> set (chart_months now). matches t m)
                            then transaction.amount t else 0) ?user)"
    using sums by (simp add: mc chart_months_sums sum_list_sort_key)
  also have "\<dots> = sum_list (map (\<lambda>t. if transaction.type' t = ''income''
                            then transaction.amount t else 0) ?user)"
    using assms(1,2) by (intro arg_cong [where f = sum_list] map_cong) (auto dest: in_window_has_bucket)
  also have "\<dots> = ?inc"
    by (simp only: sum_if_filter)
  also have "\<dots> = stats.income (summary uid ?s)"
    by (simp only: si)
  finally have ci: "sum_list (map bucket.income (monthlyChart now uid ?s))
      = stats.income (summary uid ?s)" .
  have "sum_list (map bucket.expenses (monthlyChart now uid ?s))
      = sum_list (map (\<lambda>t. if transaction.type' t \<noteq> ''income''
                               \<and> (\<exists>m \<in> set (chart_months now). matches t m)
                            then transaction.amount t else 0) ?user)"
    using sums by (simp add: mc chart_months_sums sum_list_sort_key)
  also have "\<dots> = sum_list (map (\<lambda>t. if transaction.type' t = ''expense''
                            then transaction.amount t else 0) ?user)"
    using assms(1,2) kinds
    by (intro arg_cong [where f = sum_list] map_cong)
       (auto simp: transaction_ok_def dest: in_window_has_bucket)
  also have "\<dots> = ?exp"
    by (simp only: sum_if_filter)
  also have "\<dots> = stats.expenses (summary uid ?s)"
    by (simp only: se)
  finally have ce: "sum_list (map bucket.expenses (monthlyChart now uid ?s))
      = stats.expenses (summary uid ?s)" .
  from ci ce inc exp bal show ?thesis by blast
qed

theorem chart_totals_match_summary_witness:
  "transactions (run january_requests) = january_transactions
   \<and> list_all (\<lambda>t. in_window (2026, 1, 15) (transaction.date t) \<and> whole (transaction.amount t))
        january_transactions
   \<and> sum_list (map transaction.amount january_transactions) = 190
   \<and> monthlyChart (2026, 1, 15) 1 (run january_requests) =
     [\<lparr>month = 8, year = 2025, income = 0, expenses = 0\<rparr>,
      \<lparr>month = 9, year = 2025, income = 0, expenses = 0\<rparr>,
      \<lparr>month = 10, year = 2025, income = 0, expenses = 0\<rparr>,
      \<lparr>month = 11, year = 2025, income = 0, expenses = 0\<rparr>,
      \<lparr>month = 0, year = 2026, income = 100, expenses = 40\<rparr>,
      \<lparr>month = 1, year = 2026, income = 50, expenses = 0\<rparr>]
   \<and> summary 1 (run january_requests)
       = \<lparr>stats.income = 150, stats.expenses = 40, stats.balance = 110,
           stats.transactionCount = 3\<rparr>
   \<and> sum_list (map bucket.income (monthlyChart (2026, 1, 15) 1 (run january_requests))) = 150
   \<and> sum_list (map bucket.expenses (monthlyChart (2026, 1, 15) 1 (run january_requests))) = 40"
proof -
  have y: "\<not> (0 \<le> getFullYear (2026, 1, 15) \<and> getFullYear (2026, 1, 15) \<le> 99)"
    by (simp add: getFullYear_def)
  have t: "transactions (run january_requests) = january_transactions"
    by (simp add: run_january_requests)
  have w: "list_all (\<lambda>t. in_window (2026, 1, 15) (transaction.date t)
      \<and> whole (transaction.amount t)) january_transactions"
    by (simp add: january_transactions_def in_window_def month_number_def getMonth_def
        getFullYear_def whole_def)
  then have h: "\<forall>t \<in> set (transactions (run january_requests)). transaction.userId t = 1
           \<longrightarrow> in_window (2026, 1, 15) (transaction.date t) \<and> whole (transaction.amount t)"
    by (simp add: t list_all_iff)
  have a: "sum_list (map transaction.amount january_transactions) = 190"
    by (simp add: january_transactions_def)
  have "filter (\<lambda>t. transaction.userId t = 1) (transactions (run january_requests))
      = january_transactions"
    by (simp add: t january_transactions_def)
  with a have b: "sum_list (map transaction.amount
      (filter (\<lambda>t. transaction.userId t = 1) (transactions (run january_requests)))) \<le> 2 ^ 53"
    by simp
  have c: "monthlyChart (2026, 1, 15) 1 (run january_requests) =
     [\<lparr>month = 8, year = 2025, income = 0, expenses = 0\<rparr>,
      \<lparr>month = 9, year = 2025, income = 0, expenses = 0\<rparr>,
      \<lparr>month = 10, year = 2025, income = 0, expenses = 0\<rparr>,
      \<lparr>month = 11, year = 2025, income = 0, expenses = 0\<rparr>,
      \<lparr>month = 0, year = 2026, income = 100, expenses = 40\<rparr>,
      \<lparr>month = 1, year = 2026, income = 50, expenses = 0\<rparr>]"
    by (simp add: run_january_requests january_transactions_def monthlyChart_def
        chart_months_def add_to_month_def new_Date_def getMonth_def getFullYear_def fl_eval)
  have s: "summary 1 (run january_requests)
       = \<lparr>stats.income = 150, stats.expenses = 40, stats.balance = 110,
           stats.transactionCount = 3\<rparr>"
    by (simp add: run_january_requests january_transactions_def summary_def fl_eval)
  from chart_totals_match_summary [OF y h b] s
  have "sum_list (map bucket.income (monthlyChart (2026, 1, 15) 1 (run january_requests))) = 150"
    and "sum_list (map bucket.expenses (monthlyChart (2026, 1, 15) 1 (run january_requests))) = 40"
    by simp_all
  with t w a c s show ?thesis by simp
qed

theorem chart_totals_match_summary_counterexample:
  "transactions (run decimal_requests) = decimal_transactions
   \<and> list_all (\<lambda>t. transaction.userId t = 1 \<and> in_window (2026, 1, 15) (transaction.date t))
        decimal_transactions
   \<and> monthlyChart (2026, 1, 15) 1 (run decimal_requests) =
     [\<lparr>month = 8, year = 2025, income = 0, expenses = 0\<rparr>,
      \<lparr>month = 9, year = 2025, income = 0, expenses = 0\<rparr>,
      \<lparr>month = 10, year = 2025, income = 0, expenses = 0\<rparr>,
      \<lparr>month = 11, year = 2025, income = 0, expenses = 0\<rparr>,
      \<lparr>month = 0, year = 2026, income = 1 / 2, expenses = 0\<rparr>,
      \<lparr>month = 1, year = 2026, income = 3602879701896397 / 36028797018963968, expenses = 0\<rparr>]
   \<and> sum_list (map bucket.income (monthlyChart (2026, 1, 15) 1 (run decimal_requests)))
       = 21617278211378381 / 36028797018963968
   \<and> stats.income (summary 1 (run decimal_requests)) = 21617278211378384 / 36028797018963968"
proof -
  have t: "transactions (run decimal_requests) = decimal_transactions"
    by (simp add: run_decimal_requests)
  have w: "list_all (\<lambda>t. transaction.userId t = 1 \<and> in_window (2026, 1, 15) (transaction.date t))
      decimal_transactions"
    by (simp add: decimal_transactions_def in_window_def month_number_def getMonth_def
        getFullYear_def)
  have c: "monthlyChart (2026, 1, 15) 1 (run decimal_requests) =
     [\<lparr>month = 8, year = 2025, income = 0, expenses = 0\<rparr>,
      \<lparr>month = 9, year = 2025, income = 0, expenses = 0\<rparr>,
      \<lparr>month = 10, year = 2025, income = 0, expenses = 0\<rparr>,
      \<lparr>month = 11, year = 2025, income = 0, expenses = 0\<rparr>,
      \<lparr>month = 0, year = 2026, income = 1 / 2, expenses = 0\<rparr>,
      \<lparr>month = 1, year = 2026, income = 3602879701896397 / 36028797018963968, expenses = 0\<rparr>]"
    by (simp add: run_decimal_requests decimal_transactions_def monthlyChart_def
        chart_months_def add_to_month_def new_Date_def getMonth_def getFullYear_def fl_eval)
  have s: "stats.income (summary 1 (run decimal_requests)) = 21617278211378384 / 36028797018963968"
    by (simp add: run_decimal_requests decimal_transactions_def summary_def fl_eval)
  from t w c s show ?thesis by simp
qed

end
